theory Spec2Isabelle
  imports Complex_Main "HOL-Library.Product_Lexorder" "HOL-Library.Option_ord"
    "HOL-Library.List_Lexorder" "HOL-Library.Char_ord"
begin

section \<open>Numbers of the array libraries\<close>

text \<open>
  The arrays and table columns of \<^verbatim>\<open>aggregations.py\<close> hold double precision
  numbers. They are modelled by their special values (not-a-number and the two
  infinities) and, for the finite ones, by the real number they denote: sums, products
  and quotients of finite values are exact, there is no rounding and no signed zero.
  The arithmetic on the special values is the one of IEEE 754, which numpy follows
  (a division by zero is a value, never an exception).
\<close>

datatype f64 = NaN | NInf | Fin real | PInf

fun f64_add :: "f64 \<Rightarrow> f64 \<Rightarrow> f64" where
  "f64_add (Fin a) (Fin b) = Fin (a + b)"
| "f64_add NaN y = NaN"
| "f64_add x NaN = NaN"
| "f64_add PInf NInf = NaN"
| "f64_add NInf PInf = NaN"
| "f64_add PInf y = PInf"
| "f64_add x PInf = PInf"
| "f64_add NInf y = NInf"
| "f64_add x NInf = NInf"

fun f64_mul :: "f64 \<Rightarrow> f64 \<Rightarrow> f64" where
  "f64_mul (Fin a) (Fin b) = Fin (a * b)"
| "f64_mul NaN y = NaN"
| "f64_mul x NaN = NaN"
| "f64_mul PInf (Fin b) = (if 0 < b then PInf else if b < 0 then NInf else NaN)"
| "f64_mul NInf (Fin b) = (if 0 < b then NInf else if b < 0 then PInf else NaN)"
| "f64_mul (Fin a) PInf = (if 0 < a then PInf else if a < 0 then NInf else NaN)"
| "f64_mul (Fin a) NInf = (if 0 < a then NInf else if a < 0 then PInf else NaN)"
| "f64_mul PInf PInf = PInf"
| "f64_mul NInf NInf = PInf"
| "f64_mul PInf NInf = NInf"
| "f64_mul NInf PInf = NInf"

fun f64_div :: "f64 \<Rightarrow> f64 \<Rightarrow> f64" where
  "f64_div (Fin a) (Fin b) =
     (if b = 0 then (if 0 < a then PInf else if a < 0 then NInf else NaN)
      else Fin (a / b))"
| "f64_div NaN y = NaN"
| "f64_div x NaN = NaN"
| "f64_div (Fin a) PInf = Fin 0"
| "f64_div (Fin a) NInf = Fin 0"
| "f64_div PInf (Fin b) = (if 0 \<le> b then PInf else NInf)"
| "f64_div NInf (Fin b) = (if 0 \<le> b then NInf else PInf)"
| "f64_div PInf PInf = NaN"
| "f64_div PInf NInf = NaN"
| "f64_div NInf PInf = NaN"
| "f64_div NInf NInf = NaN"

text \<open>The comparison \<^verbatim>\<open>x > 0\<close>: false on not-a-number.\<close>

fun f64_gt0 :: "f64 \<Rightarrow> bool" where
  "f64_gt0 (Fin a) = (0 < a)"
| "f64_gt0 PInf = True"
| "f64_gt0 NInf = False"
| "f64_gt0 NaN = False"

text \<open>\<^verbatim>\<open>pd.notnull\<close>, \<^verbatim>\<open>.where(cond)\<close> and \<^verbatim>\<open>.fillna(other)\<close>, on one element.\<close>

definition notnull :: "f64 \<Rightarrow> bool" where
  "notnull x = (x \<noteq> NaN)"

definition where_elem :: "bool \<Rightarrow> f64 \<Rightarrow> f64" where
  "where_elem c x = (if c then x else NaN)"

definition fillna :: "f64 \<Rightarrow> f64 \<Rightarrow> f64" where
  "fillna x other = (if x = NaN then other else x)"

text \<open>
  \<^verbatim>\<open>.sum()\<close> of xarray and of pandas skips the undefined entries (\<^verbatim>\<open>skipna\<close> is
  on by default for floating point data), and the sum of no entry is 0.
\<close>

fun nansum :: "f64 list \<Rightarrow> f64" where
  "nansum [] = Fin 0"
| "nansum (x # xs) = (if x = NaN then nansum xs else f64_add x (nansum xs))"

section \<open>Errors\<close>

text \<open>
  The exceptions the code can raise. \<open>BadReference\<close> is not a Python exception: it
  is the model's answer to an object reference that denotes no object of the store,
  which no Python program can construct.
\<close>

datatype error = KeyError | IndexError | ValueError | TypeError | AttributeError | IOError
  | InvalidIndexError
  | BadReference

text \<open>Python's \<^verbatim>\<open>LookupError\<close> is the base class of KeyError and IndexError.\<close>

fun is_LookupError :: "error \<Rightarrow> bool" where
  "is_LookupError KeyError = True"
| "is_LookupError IndexError = True"
| "is_LookupError e = False"

section \<open>Tables (pandas DataFrame)\<close>

text \<open>
  A column is a float column or a column of labels (strings, region codes); a table is
  the list of its named columns, all of one length, with the name of its row index.
  The row index itself is the default one, the row positions.
\<close>

datatype 'l column = FloatCol "f64 list" | LabelCol "'l list"

datatype 'l cell = Num f64 | Lab 'l

record 'l dataframe =
  index_name :: "string option"
  columns :: "(string \<times> 'l column) list"

fun col_length :: "'l column \<Rightarrow> nat" where
  "col_length (FloatCol xs) = length xs"
| "col_length (LabelCol ls) = length ls"

fun col_cell :: "'l column \<Rightarrow> nat \<Rightarrow> 'l cell" where
  "col_cell (FloatCol xs) i = Num (xs ! i)"
| "col_cell (LabelCol ls) i = Lab (ls ! i)"

text \<open>\<^verbatim>\<open>df[name]\<close>: the column, KeyError when the table has none of that name.\<close>

definition df_getitem :: "'l dataframe \<Rightarrow> string \<Rightarrow> error + 'l column" where
  "df_getitem df name =
     (case map_of (columns df) name of None \<Rightarrow> Inl KeyError | Some c \<Rightarrow> Inr c)"

section \<open>Labelled arrays (xarray)\<close>

text \<open>
  xarray addresses an array by named dimensions. A position gives an index along every
  dimension name; a variable is its list of dimensions and its elements, floats or
  labels, read at a position (only the indices along its own dimensions matter). A
  dataset is xarray's triple: the variables by name, the names that are coordinates,
  and the length of every dimension.
\<close>

type_synonym pos = "string \<Rightarrow> nat"

datatype 'l elems = Floats "pos \<Rightarrow> f64" | Labels "pos \<Rightarrow> 'l"

record 'l variable =
  vdims :: "string list"
  vdata :: "'l elems"

record 'l dataset =
  variables :: "string \<Rightarrow> 'l variable option"
  coord_names :: "string set"
  dims :: "string \<Rightarrow> nat option"

fun elem_cell :: "'l elems \<Rightarrow> pos \<Rightarrow> 'l cell" where
  "elem_cell (Floats f) p = Num (f p)"
| "elem_cell (Labels g) p = Lab (g p)"

text \<open>\<^verbatim>\<open>xr.DataArray(column.values, dims=(d,))\<close>: a one-dimensional variable.\<close>

fun data_array_1d :: "string \<Rightarrow> 'l column \<Rightarrow> 'l variable" where
  "data_array_1d d (FloatCol xs) = \<lparr>vdims = [d], vdata = Floats (\<lambda>p. xs ! p d)\<rparr>"
| "data_array_1d d (LabelCol ls) = \<lparr>vdims = [d], vdata = Labels (\<lambda>p. ls ! p d)\<rparr>"

text \<open>
  \<^verbatim>\<open>ds[name] = array\<close> and \<^verbatim>\<open>ds.coords[name] = array\<close> for a one-dimensional array
  of length \<open>n\<close> along \<open>d\<close>: xarray refuses (ValueError) an array whose length
  conflicts with the length the dataset already has along \<open>d\<close>. The first keeps the
  name's role (a name that is a coordinate stays one), the second makes the name a
  coordinate.
\<close>

definition dataset_setitem ::
  "'l dataset \<Rightarrow> string \<Rightarrow> string \<Rightarrow> nat \<Rightarrow> 'l variable \<Rightarrow> error + 'l dataset" where
  "dataset_setitem ds name d n v =
     (if dims ds d \<noteq> None \<and> dims ds d \<noteq> Some n then Inl ValueError
      else Inr \<lparr>variables = (variables ds)(name \<mapsto> v),
                 coord_names = coord_names ds,
                 dims = (dims ds)(d \<mapsto> n)\<rparr>)"

definition coords_setitem ::
  "'l dataset \<Rightarrow> string \<Rightarrow> string \<Rightarrow> nat \<Rightarrow> 'l variable \<Rightarrow> error + 'l dataset" where
  "coords_setitem ds name d n v =
     (if dims ds d \<noteq> None \<and> dims ds d \<noteq> Some n then Inl ValueError
      else Inr \<lparr>variables = (variables ds)(name \<mapsto> v),
                 coord_names = insert name (coord_names ds),
                 dims = (dims ds)(d \<mapsto> n)\<rparr>)"

text \<open>\<^verbatim>\<open>ds[name]\<close>: KeyError when the dataset has no such variable.\<close>

definition dataset_getitem :: "'l dataset \<Rightarrow> string \<Rightarrow> error + 'l variable" where
  "dataset_getitem ds name =
     (case variables ds name of None \<Rightarrow> Inl KeyError | Some v \<Rightarrow> Inr v)"

text \<open>Arithmetic needs floats: an array of labels raises TypeError.\<close>

fun floats_of :: "'l variable \<Rightarrow> error + (pos \<Rightarrow> f64)" where
  "floats_of v = (case vdata v of Floats f \<Rightarrow> Inr f | Labels g \<Rightarrow> Inl TypeError)"

fun floats_of_column :: "'l column \<Rightarrow> error + f64 list" where
  "floats_of_column (FloatCol xs) = Inr xs"
| "floats_of_column (LabelCol ls) = Inl TypeError"

text \<open>
  Element-wise product of two arrays: xarray broadcasts by dimension name, so the
  product is read at a position from both factors, and has the dimensions of the first
  followed by the new ones of the second.
\<close>

definition var_mul :: "'l variable \<Rightarrow> 'l variable \<Rightarrow> error + 'l variable" where
  "var_mul a b =
     (case floats_of a of Inl e \<Rightarrow> Inl e | Inr fa \<Rightarrow>
      (case floats_of b of Inl e \<Rightarrow> Inl e | Inr fb \<Rightarrow>
        Inr \<lparr>vdims = vdims a @ filter (\<lambda>d. d \<notin> set (vdims a)) (vdims b),
             vdata = Floats (\<lambda>p. f64_mul (fa p) (fb p))\<rparr>))"

definition var_div :: "'l variable \<Rightarrow> 'l variable \<Rightarrow> error + 'l variable" where
  "var_div a b =
     (case floats_of a of Inl e \<Rightarrow> Inl e | Inr fa \<Rightarrow>
      (case floats_of b of Inl e \<Rightarrow> Inl e | Inr fb \<Rightarrow>
        Inr \<lparr>vdims = vdims a @ filter (\<lambda>d. d \<notin> set (vdims a)) (vdims b),
             vdata = Floats (\<lambda>p. f64_div (fa p) (fb p))\<rparr>))"

subsection \<open>Grouped sums\<close>

text \<open>
  \<^verbatim>\<open>array.groupby(name).sum(dim=d)\<close>, for a one-dimensional group coordinate along
  \<open>d\<close>: the groups are the distinct defined values of the coordinate, in sorted
  order; they become the index of a new dimension, named after the coordinate, that
  replaces \<open>d\<close>; every other dimension is kept, and the sum is taken for each of their
  positions on its own. Points whose group label is undefined belong to no group.
\<close>

fun f64_key :: "f64 \<Rightarrow> nat \<times> real" where
  "f64_key NaN = (0, 0)"
| "f64_key NInf = (1, 0)"
| "f64_key (Fin a) = (2, a)"
| "f64_key PInf = (3, 0)"

fun cell_key :: "'l cell \<Rightarrow> (nat \<times> real) \<times> 'l option" where
  "cell_key (Num x) = (f64_key x, None)"
| "cell_key (Lab l) = ((4, 0), Some l)"

definition cells_along :: "'l variable \<Rightarrow> string \<Rightarrow> nat \<Rightarrow> 'l cell list" where
  "cells_along g d n = map (\<lambda>i. elem_cell (vdata g) ((\<lambda>x. 0)(d := i))) [0..<n]"

definition group_keys :: "('l::linorder) cell list \<Rightarrow> 'l cell list" where
  "group_keys cs = sort_key cell_key (remdups (filter (\<lambda>c. c \<noteq> Num NaN) cs))"

definition members :: "'l cell list \<Rightarrow> 'l cell \<Rightarrow> nat list" where
  "members cs k = filter (\<lambda>i. cs ! i = k) [0..<length cs]"

definition groupby_sum ::
  "(pos \<Rightarrow> f64) \<Rightarrow> string list \<Rightarrow> ('l::linorder) cell list \<Rightarrow> string \<Rightarrow> string
     \<Rightarrow> 'l variable" where
  "groupby_sum f ds cs gname d =
     \<lparr>vdims = map (\<lambda>x. if x = d then gname else x) ds,
      vdata = Floats (\<lambda>p.
        nansum (map (\<lambda>i. f (p(d := i))) (members cs (group_keys cs ! p gname))))\<rparr>"

text \<open>The index coordinate of the group dimension: the keys, in the dtype of the labels.\<close>

fun key_elems :: "'l elems \<Rightarrow> 'l cell list \<Rightarrow> string \<Rightarrow> 'l elems" where
  "key_elems (Floats f) ks d =
     Floats (\<lambda>p. case ks ! p d of Num x \<Rightarrow> x | Lab l \<Rightarrow> NaN)"
| "key_elems (Labels g) ks d =
     Labels (\<lambda>p. case ks ! p d of Lab l \<Rightarrow> l | Num x \<Rightarrow> g p)"

section \<open>The store of dataset objects\<close>

text \<open>
  A Python name holds a reference to a dataset object, and an assignment into
  \<^verbatim>\<open>ds[...]\<close> changes the object every holder of the reference sees. The store is
  the list of the objects created so far; a reference is a position in it, and a new
  object is appended.
\<close>

type_synonym 'l heap = "'l dataset list"

definition alloc :: "'l dataset \<Rightarrow> 'l heap \<Rightarrow> nat \<times> 'l heap" where
  "alloc d h = (length h, h @ [d])"

definition mutate ::
  "nat \<Rightarrow> ('l dataset \<Rightarrow> error + 'l dataset) \<Rightarrow> 'l heap \<Rightarrow> error option \<times> 'l heap" where
  "mutate r f h =
     (if r < length h
      then (case f (h ! r) of Inl e \<Rightarrow> (Some e, h) | Inr d \<Rightarrow> (None, h[r := d]))
      else (Some BadReference, h))"

section \<open>The weighted reducer\<close>

text \<open>
  \<^verbatim>\<open>_aggregate_reindexed_data_to_regions\<close>, statement by statement. Lines 71 to 73
  attach the region labels as a coordinate along \<^verbatim>\<open>reshape_index\<close>.
\<close>

definition attach_region_labels ::
  "string \<Rightarrow> 'l dataframe \<Rightarrow> 'l dataset \<Rightarrow> error + 'l dataset" where
  "attach_region_labels agglev weights ds =
     (case df_getitem weights agglev of Inl e \<Rightarrow> Inl e | Inr c \<Rightarrow>
        coords_setitem ds agglev ''reshape_index'' (col_length c)
          (data_array_1d ''reshape_index'' c))"

text \<open>Lines 76 to 78 store the weight column as a data variable.\<close>

definition attach_weights ::
  "string \<Rightarrow> 'l dataframe \<Rightarrow> 'l dataset \<Rightarrow> error + 'l dataset" where
  "attach_weights aggwt weights ds =
     (case df_getitem weights aggwt of Inl e \<Rightarrow> Inl e | Inr c \<Rightarrow>
        dataset_setitem ds aggwt ''reshape_index'' (col_length c)
          (data_array_1d ''reshape_index'' c))"

text \<open>
  Lines 80 to 83: \<^verbatim>\<open>ds[aggwt].where(ds[aggwt] > 0).fillna(weights[backup_aggwt].values)\<close>.
  The backup values are a plain array, matched with the points by position. The array
  assigned back has the dataset's own length, so the assignment cannot conflict.
\<close>

definition fallback_weight :: "f64 \<Rightarrow> f64 \<Rightarrow> f64" where
  "fallback_weight w b = fillna (where_elem (f64_gt0 w) w) b"

definition apply_fallback ::
  "string \<Rightarrow> string \<Rightarrow> 'l dataframe \<Rightarrow> 'l dataset \<Rightarrow> error + 'l dataset" where
  "apply_fallback aggwt backup_aggwt weights ds =
     (case dataset_getitem ds aggwt of Inl e \<Rightarrow> Inl e | Inr v \<Rightarrow>
      (case floats_of v of Inl e \<Rightarrow> Inl e | Inr f \<Rightarrow>
       (case df_getitem weights backup_aggwt of Inl e \<Rightarrow> Inl e | Inr c \<Rightarrow>
        (case floats_of_column c of Inl e \<Rightarrow> Inl e | Inr bs \<Rightarrow>
          if dims ds ''reshape_index'' \<noteq> Some (length bs) then Inl ValueError
          else Inr \<lparr>variables = (variables ds)(aggwt \<mapsto>
                      \<lparr>vdims = vdims v,
                       vdata = Floats (\<lambda>p. fallback_weight (f p) (bs ! p ''reshape_index''))\<rparr>),
                    coord_names = coord_names ds,
                    dims = dims ds\<rparr>))))"

text \<open>
  Lines 85 to 94: the grouped sum of value times weight over the grouped sum of the
  weights. The new dataset holds the result under the variable's name, the region
  index, and the coordinates of the data variable that do not run along the points.
\<close>

definition kept_coord :: "'l dataset \<Rightarrow> 'l variable \<Rightarrow> string \<Rightarrow> bool" where
  "kept_coord ds x name =
     (name \<in> coord_names ds \<and>
      (case variables ds name of None \<Rightarrow> False
       | Some c \<Rightarrow> set (vdims c) \<subseteq> set (vdims x) \<and> ''reshape_index'' \<notin> set (vdims c)))"

definition weighted ::
  "string \<Rightarrow> string \<Rightarrow> string \<Rightarrow> ('l::linorder) dataset \<Rightarrow> error + 'l dataset" where
  "weighted variable aggwt agglev ds =
     (case dataset_getitem ds variable of Inl e \<Rightarrow> Inl e | Inr x \<Rightarrow>
      (case dataset_getitem ds aggwt of Inl e \<Rightarrow> Inl e | Inr w \<Rightarrow>
       (case var_mul x w of Inl e \<Rightarrow> Inl e | Inr xw \<Rightarrow>
        (case dataset_getitem ds agglev of Inl e \<Rightarrow> Inl e | Inr g \<Rightarrow>
         (case dims ds ''reshape_index'' of None \<Rightarrow> Inl KeyError | Some n \<Rightarrow>
          (case floats_of xw of Inl e \<Rightarrow> Inl e | Inr fxw \<Rightarrow>
           (case floats_of w of Inl e \<Rightarrow> Inl e | Inr fw \<Rightarrow>
            (let cs = cells_along g ''reshape_index'' n;
                 numer = groupby_sum fxw (vdims xw) cs agglev ''reshape_index'';
                 denom = groupby_sum fw (vdims w) cs agglev ''reshape_index''
             in (case var_div numer denom of Inl e \<Rightarrow> Inl e | Inr res \<Rightarrow>
               Inr \<lparr>variables =
                      (\<lambda>name. if kept_coord ds x name then variables ds name else None)
                      (agglev \<mapsto> \<lparr>vdims = [agglev],
                                   vdata = key_elems (vdata g) (group_keys cs) agglev\<rparr>,
                       variable \<mapsto> res),
                    coord_names =
                      insert agglev {name \<in> coord_names ds. kept_coord ds x name} - {variable},
                    dims = (\<lambda>d. if d \<in> set (vdims res) then dims ds d else None)
                      (agglev \<mapsto> length (group_keys cs))\<rparr>)))))))))"

definition aggregate_reindexed_data_to_regions ::
  "nat \<Rightarrow> string \<Rightarrow> string \<Rightarrow> string \<Rightarrow> ('l::linorder) dataframe \<Rightarrow> string \<Rightarrow> 'l heap
     \<Rightarrow> (error + 'l dataset) \<times> 'l heap" where
  "aggregate_reindexed_data_to_regions ds variable aggwt agglev weights backup_aggwt h =
     (case mutate ds (attach_region_labels agglev weights) h of
        (Some e, h1) \<Rightarrow> (Inl e, h1)
      | (None, h1) \<Rightarrow>
     (case mutate ds (attach_weights aggwt weights) h1 of
        (Some e, h2) \<Rightarrow> (Inl e, h2)
      | (None, h2) \<Rightarrow>
     (case mutate ds (apply_fallback aggwt backup_aggwt weights) h2 of
        (Some e, h3) \<Rightarrow> (Inl e, h3)
      | (None, h3) \<Rightarrow> (weighted variable aggwt agglev (h3 ! ds), h3))))"

section \<open>Reading tables and datasets\<close>

text \<open>
  The observations the properties are stated with: the cells of a column, the floats of
  a column, the float a dataset holds under a name at a position, and the labels of an
  index coordinate.
\<close>

definition column_cells :: "'l dataframe \<Rightarrow> string \<Rightarrow> 'l cell list" where
  "column_cells df name =
     (case map_of (columns df) name of None \<Rightarrow> []
      | Some c \<Rightarrow> map (col_cell c) [0..<col_length c])"

definition float_column :: "'l dataframe \<Rightarrow> string \<Rightarrow> f64 list" where
  "float_column df name =
     (case map_of (columns df) name of Some (FloatCol xs) \<Rightarrow> xs | _ \<Rightarrow> [])"

definition is_float_column :: "'l dataframe \<Rightarrow> string \<Rightarrow> bool" where
  "is_float_column df name =
     (case map_of (columns df) name of Some (FloatCol xs) \<Rightarrow> True | _ \<Rightarrow> False)"

definition float_at :: "'l dataset \<Rightarrow> string \<Rightarrow> pos \<Rightarrow> f64 option" where
  "float_at ds name p =
     (case variables ds name of None \<Rightarrow> None
      | Some v \<Rightarrow> (case vdata v of Floats f \<Rightarrow> Some (f p) | Labels g \<Rightarrow> None))"

definition index_cells :: "'l dataset \<Rightarrow> string \<Rightarrow> 'l cell list" where
  "index_cells ds d =
     (case (variables ds d, dims ds d) of
        (Some ix, Some n) \<Rightarrow> cells_along ix d n
      | _ \<Rightarrow> [])"

section \<open>What the reducer is specified to compute\<close>

text \<open>
  The weight in force at a point: the primary weight where it is positive, the backup
  weight of the same point otherwise.
\<close>

definition effective_weights :: "'l dataframe \<Rightarrow> string \<Rightarrow> string \<Rightarrow> f64 list" where
  "effective_weights df aggwt backup_aggwt =
     map2 fallback_weight (float_column df aggwt) (float_column df backup_aggwt)"

text \<open>
  The specification's formula, \<^verbatim>\<open>sum(value * weight) / sum(weight)\<close>, over the values
  and the weights of the points of one region, with the sum of the array library.
\<close>

definition weighted_mean_spec :: "f64 list \<Rightarrow> f64 list \<Rightarrow> f64" where
  "weighted_mean_spec vs ws = f64_div (nansum (map2 f64_mul vs ws)) (nansum ws)"

text \<open>A term that leaves every sum it joins unchanged: zero, or undefined and skipped.\<close>

definition no_contribution :: "f64 \<Rightarrow> bool" where
  "no_contribution x = (x = NaN \<or> x = Fin 0)"

text \<open>
  The inputs on which the reducer raises nothing: the dataset reference is live, the
  three names differ, the table has the three columns, the two weight columns hold
  floats and are as long as the label column, the dataset has that many points if it
  has points at all, and it holds floats under the variable's name.
\<close>

definition reducer_ok ::
  "nat \<Rightarrow> string \<Rightarrow> string \<Rightarrow> string \<Rightarrow> 'l dataframe \<Rightarrow> string \<Rightarrow> 'l heap \<Rightarrow> bool" where
  "reducer_ok ds variable aggwt agglev weights backup_aggwt h =
     (ds < length h \<and> variable \<noteq> aggwt \<and> variable \<noteq> agglev \<and> aggwt \<noteq> agglev \<and>
      map_of (columns weights) agglev \<noteq> None \<and>
      is_float_column weights aggwt \<and> is_float_column weights backup_aggwt \<and>
      length (float_column weights aggwt) = length (column_cells weights agglev) \<and>
      length (float_column weights backup_aggwt) = length (column_cells weights agglev) \<and>
      (dims (h ! ds) ''reshape_index'' = None \<or>
       dims (h ! ds) ''reshape_index'' = Some (length (column_cells weights agglev))) \<and>
      float_at (h ! ds) variable (\<lambda>d. 0) \<noteq> None)"

text \<open>The dataset object the reducer leaves behind in the store.\<close>

definition mutated ::
  "'l dataset \<Rightarrow> string \<Rightarrow> string \<Rightarrow> 'l column \<Rightarrow> f64 list \<Rightarrow> f64 list \<Rightarrow> 'l dataset" where
  "mutated d agglev aggwt lev ws bs =
     \<lparr>variables = (variables d)
          (agglev \<mapsto> data_array_1d ''reshape_index'' lev,
           aggwt \<mapsto> \<lparr>vdims = [''reshape_index''],
              vdata = Floats (\<lambda>p. fallback_weight (ws ! p ''reshape_index'')
                                      (bs ! p ''reshape_index''))\<rparr>),
      coord_names = insert agglev (coord_names d),
      dims = (dims d)(''reshape_index'' \<mapsto> col_length lev)\<rparr>"

section \<open>The spatial reindexer\<close>

text \<open>
  \<^verbatim>\<open>df.lon\<close>: attribute access to a column raises AttributeError, not KeyError,
  when the table has no such column.
\<close>

definition df_getattr :: "'l dataframe \<Rightarrow> string \<Rightarrow> error + 'l column" where
  "df_getattr df name =
     (case map_of (columns df) name of None \<Rightarrow> Inl AttributeError | Some c \<Rightarrow> Inr c)"

definition col_cells :: "'l column \<Rightarrow> 'l cell list" where
  "col_cells c = map (col_cell c) [0..<col_length c]"

text \<open>
  Label lookup of \<^verbatim>\<open>sel\<close> and \<^verbatim>\<open>sel_points\<close> along a dimension \<open>d\<close>, for an array
  of labels and the default exact matching. The dimension must exist (ValueError). Its
  index is the coordinate variable of the same name; without one the labels are taken
  as positions, which floats cannot be (IndexError). pandas refuses to look an array of
  labels up in an index with repeated entries (InvalidIndexError), and xarray raises
  KeyError as soon as one label is not found. An undefined label matches an undefined
  index entry only.
\<close>

fun position :: "'a \<Rightarrow> 'a list \<Rightarrow> nat" where
  "position x [] = 0"
| "position x (y # ys) = (if x = y then 0 else Suc (position x ys))"

definition index_positions :: "'l dataset \<Rightarrow> string \<Rightarrow> 'l cell list \<Rightarrow> error + nat list" where
  "index_positions ds d labels =
     (case dims ds d of None \<Rightarrow> Inl ValueError | Some n \<Rightarrow>
      (case variables ds d of None \<Rightarrow> Inl IndexError | Some ix \<Rightarrow>
        (let axis = cells_along ix d n in
         if \<not> distinct axis then Inl InvalidIndexError
         else if list_ex (\<lambda>l. l \<notin> set axis) labels then Inl KeyError
         else Inr (map (\<lambda>l. position l axis) labels))))"

text \<open>
  Point-wise selection, for the names of the longitude and latitude dimensions and of
  the new dimension of the sample points. A variable that runs along the longitude or
  the latitude is read, at point \<open>i\<close> of the new dimension, at the grid positions
  found for row \<open>i\<close>; its other dimensions are untouched. A variable along neither
  is kept as it is.
\<close>

definition at_points ::
  "string \<Rightarrow> string \<Rightarrow> string \<Rightarrow> nat list \<Rightarrow> nat list \<Rightarrow> pos \<Rightarrow> pos" where
  "at_points lon_name lat_name pdim lon_pos lat_pos p =
     p(lon_name := lon_pos ! p pdim, lat_name := lat_pos ! p pdim)"

fun map_pos :: "(pos \<Rightarrow> pos) \<Rightarrow> 'l elems \<Rightarrow> 'l elems" where
  "map_pos t (Floats f) = Floats (\<lambda>p. f (t p))"
| "map_pos t (Labels g) = Labels (\<lambda>p. g (t p))"

definition spatial :: "string \<Rightarrow> string \<Rightarrow> 'l variable \<Rightarrow> bool" where
  "spatial lon_name lat_name v = (lon_name \<in> set (vdims v) \<or> lat_name \<in> set (vdims v))"

text \<open>
  With vectorized indexing (\<^verbatim>\<open>sel\<close> with array indexers sharing a dimension) the new
  dimension stands where the first indexed dimension stood.
\<close>

definition vectorized_dims :: "string \<Rightarrow> string \<Rightarrow> string \<Rightarrow> string list \<Rightarrow> string list" where
  "vectorized_dims lon_name lat_name pdim ds =
     rev (remdups (rev (map (\<lambda>d. if d = lon_name \<or> d = lat_name then pdim else d) ds)))"

definition pointwise_variable ::
  "bool \<Rightarrow> string \<Rightarrow> string \<Rightarrow> string \<Rightarrow> nat list \<Rightarrow> nat list \<Rightarrow> 'l variable
     \<Rightarrow> 'l variable" where
  "pointwise_variable vectorized lon_name lat_name pdim lon_pos lat_pos v =
     (if spatial lon_name lat_name v
      then \<lparr>vdims = (if vectorized then vectorized_dims lon_name lat_name pdim (vdims v)
                      else pdim # filter (\<lambda>d. d \<noteq> lon_name \<and> d \<noteq> lat_name) (vdims v)),
            vdata = map_pos (at_points lon_name lat_name pdim lon_pos lat_pos) (vdata v)\<rparr>
      else v)"

definition pointwise ::
  "bool \<Rightarrow> string \<Rightarrow> string \<Rightarrow> string \<Rightarrow> 'l dataset \<Rightarrow> nat list \<Rightarrow> nat list
     \<Rightarrow> 'l dataset" where
  "pointwise vectorized lon_name lat_name pdim ds lon_pos lat_pos =
     \<lparr>variables = (\<lambda>name.
         map_option (pointwise_variable vectorized lon_name lat_name pdim lon_pos lat_pos)
           (variables ds name)),
      coord_names = coord_names ds,
      dims = (dims ds)(lon_name := None, lat_name := None, pdim \<mapsto> length lon_pos)\<rparr>"

text \<open>
  \<^verbatim>\<open>ds.sel(**{lon_name: lons, lat_name: lats})\<close> with two label arrays along the
  dimension \<open>pdim\<close>.
\<close>

definition sel_vectorized ::
  "string \<Rightarrow> string \<Rightarrow> string \<Rightarrow> 'l dataset \<Rightarrow> 'l cell list \<Rightarrow> 'l cell list
     \<Rightarrow> error + 'l dataset" where
  "sel_vectorized lon_name lat_name pdim ds lons lats =
     (case index_positions ds lon_name lons of Inl e \<Rightarrow> Inl e | Inr lon_pos \<Rightarrow>
      (case index_positions ds lat_name lats of Inl e \<Rightarrow> Inl e | Inr lat_pos \<Rightarrow>
        if length lons \<noteq> length lats then Inl ValueError
        else if dims ds pdim \<noteq> None \<and> dims ds pdim \<noteq> Some (length lons)
        then Inl ValueError
        else Inr (pointwise True lon_name lat_name pdim ds lon_pos lat_pos)))"

text \<open>
  \<^verbatim>\<open>ds.sel_points(dim, lat=..., lon=...)\<close> of the older xarray: the same label lookup,
  a dimension name that is not yet a dimension of the dataset (ValueError otherwise),
  and the new dimension in front.
\<close>

definition sel_points ::
  "string \<Rightarrow> 'l dataset \<Rightarrow> 'l cell list \<Rightarrow> 'l cell list \<Rightarrow> error + 'l dataset" where
  "sel_points pdim ds lats lons =
     (case index_positions ds ''lat'' lats of Inl e \<Rightarrow> Inl e | Inr lat_pos \<Rightarrow>
      (case index_positions ds ''lon'' lons of Inl e \<Rightarrow> Inl e | Inr lon_pos \<Rightarrow>
        if length lons \<noteq> length lats then Inl ValueError
        else if dims ds pdim \<noteq> None then Inl ValueError
        else Inr (pointwise False ''lon'' ''lat'' pdim ds lon_pos lat_pos)))"

text \<open>
  \<^verbatim>\<open>_reindex_spatial_data_to_regions\<close>. The first argument is the outcome of the
  version test of line 22. The caller's dataset object is read; the result is a new
  object of the store.
\<close>

definition reindex_spatial_data_to_regions ::
  "bool \<Rightarrow> nat \<Rightarrow> 'l dataframe \<Rightarrow> 'l heap \<Rightarrow> (error + nat) \<times> 'l heap" where
  "reindex_spatial_data_to_regions vectorized ds df h =
     (if \<not> ds < length h then (Inl BadReference, h)
      else if vectorized then
        (case df_getattr df ''lon'' of Inl e \<Rightarrow> (Inl e, h) | Inr lons \<Rightarrow>
         (case df_getattr df ''lat'' of Inl e \<Rightarrow> (Inl e, h) | Inr lats \<Rightarrow>
          (case sel_vectorized ''lon'' ''lat'' ''reshape_index'' (h ! ds)
                  (col_cells lons) (col_cells lats) of
             Inl e \<Rightarrow> (Inl e, h)
           | Inr d \<Rightarrow> (Inr (length h), h @ [d]))))
      else
        (case df_getattr df ''lat'' of Inl e \<Rightarrow> (Inl e, h) | Inr lats \<Rightarrow>
         (case df_getattr df ''lon'' of Inl e \<Rightarrow> (Inl e, h) | Inr lons \<Rightarrow>
          (case sel_points ''reshape_index'' (h ! ds) (col_cells lats) (col_cells lons) of
             Inl e \<Rightarrow> (Inl e, h)
           | Inr d \<Rightarrow> (Inr (length h), h @ [d])))))"

section \<open>The weights provider\<close>

text \<open>
  The process state: the dataset objects, the table objects, the cache of
  \<^verbatim>\<open>toolz.memoize\<close> around the provider (from the argument of a call to the table
  object it returned), what the file system and the archive hold (the table
  \<^verbatim>\<open>pd.read_csv\<close> parses from a path or an archive, none when it cannot be read), and
  the number of reads made so far.
\<close>

record 'l world =
  datasets :: "'l heap"
  frames :: "'l dataframe list"
  memo :: "string option \<Rightarrow> nat option"
  csv_files :: "string \<Rightarrow> 'l dataframe option"
  archives :: "string \<Rightarrow> 'l dataframe option"
  reads :: nat

text \<open>
  Line 209, \<^verbatim>\<open>df.set_value(df['pix_cent_x'] == 180.125, 'pix_cent_x', -179.875)\<close>. The
  row argument is a boolean column, not a row label, and pandas falls back to the
  assignment \<^verbatim>\<open>df.loc[mask, 'pix_cent_x'] = -179.875\<close>: the rows where the mask holds
  get the new value. The comparison is false on labels and on undefined entries.
  Both numbers are binary fractions, exact as doubles: 180.125 is 1441/8 and -179.875
  is -1439/8.
\<close>

fun relabel_column :: "'l column \<Rightarrow> 'l column" where
  "relabel_column (FloatCol xs) =
     FloatCol (map (\<lambda>x. if x = Fin (1441 / 8) then Fin (- (1439 / 8)) else x) xs)"
| "relabel_column (LabelCol ls) = LabelCol ls"

definition relabel_out_of_bounds :: "'l dataframe \<Rightarrow> error + 'l dataframe" where
  "relabel_out_of_bounds df =
     (case df_getitem df ''pix_cent_x'' of Inl e \<Rightarrow> Inl e | Inr c \<Rightarrow>
        Inr (df\<lparr>columns := map (\<lambda>(name, col).
               if name = ''pix_cent_x'' then (name, relabel_column col) else (name, col))
             (columns df)\<rparr>))"

text \<open>Lines 215 to 217: \<^verbatim>\<open>df.rename(columns={...}, inplace=True)\<close>.\<close>

definition rename_column :: "string \<Rightarrow> string" where
  "rename_column name =
     (if name = ''pix_cent_x'' then ''lon''
      else if name = ''pix_cent_y'' then ''lat'' else name)"

text \<open>
  The body of \<^verbatim>\<open>_prepare_spatial_weights_data\<close>. \<^verbatim>\<open>WEIGHTS_FILE\<close> is a module
  constant the source file does not define; it is a parameter here. Line 212,
  \<^verbatim>\<open>df.drop_duplicates()\<close>, returns a new table that is dropped: the table is left as
  it is. Every call of \<^verbatim>\<open>pd.read_csv\<close> is counted.
\<close>

definition load_weights ::
  "string \<Rightarrow> string option \<Rightarrow> 'l world \<Rightarrow> (error + 'l dataframe) \<times> 'l world" where
  "load_weights WEIGHTS_FILE weights_file w =
     (case weights_file of
        None \<Rightarrow>
          (case archives w WEIGHTS_FILE of None \<Rightarrow> (Inl IOError, w)
           | Some df \<Rightarrow> (Inr df, w\<lparr>reads := reads w + 1\<rparr>))
      | Some path \<Rightarrow>
          (case csv_files w path of None \<Rightarrow> (Inl IOError, w\<lparr>reads := reads w + 1\<rparr>)
           | Some df \<Rightarrow> (Inr df, w\<lparr>reads := reads w + 1\<rparr>)))"

definition prepare_body ::
  "string \<Rightarrow> string option \<Rightarrow> 'l world \<Rightarrow> (error + 'l dataframe) \<times> 'l world" where
  "prepare_body WEIGHTS_FILE weights_file w =
     (case load_weights WEIGHTS_FILE weights_file w of
        (Inl e, w1) \<Rightarrow> (Inl e, w1)
      | (Inr df, w1) \<Rightarrow>
          (case relabel_out_of_bounds df of Inl e \<Rightarrow> (Inl e, w1)
           | Inr df1 \<Rightarrow>
               (Inr \<lparr>index_name = Some ''reshape_index'',
                     columns = map (\<lambda>(name, col). (rename_column name, col)) (columns df1)\<rparr>,
                w1)))"

text \<open>
  The decorated function: \<^verbatim>\<open>toolz.memoize\<close> looks the argument up in its cache and
  calls the body only on a miss; a result is stored, an exception is not. A call
  without argument is the key \<open>None\<close>.
\<close>

definition prepare_spatial_weights_data ::
  "string \<Rightarrow> string option \<Rightarrow> 'l world \<Rightarrow> (error + nat) \<times> 'l world" where
  "prepare_spatial_weights_data WEIGHTS_FILE weights_file w =
     (case memo w weights_file of
        Some r \<Rightarrow> (Inr r, w)
      | None \<Rightarrow>
          (case prepare_body WEIGHTS_FILE weights_file w of
             (Inl e, w1) \<Rightarrow> (Inl e, w1)
           | (Inr df, w1) \<Rightarrow>
               (Inr (length (frames w1)),
                w1\<lparr>frames := frames w1 @ [df],
                    memo := (memo w1)(weights_file \<mapsto> length (frames w1))\<rparr>)))"

section \<open>The entry point\<close>

text \<open>
  \<^verbatim>\<open>weighted_aggregate_grid_to_regions\<close>: the weights are the table given, or the
  provider's default table; the grid is reindexed into a new dataset object, which the
  reducer then works on with the default backup weight \<^verbatim>\<open>areawt\<close>.
\<close>

definition weighted_aggregate_grid_to_regions ::
  "bool \<Rightarrow> string \<Rightarrow> nat \<Rightarrow> string \<Rightarrow> string \<Rightarrow> string \<Rightarrow> ('l::linorder) dataframe option
     \<Rightarrow> 'l world \<Rightarrow> (error + 'l dataset) \<times> 'l world" where
  "weighted_aggregate_grid_to_regions vectorized WEIGHTS_FILE ds variable aggwt agglev weights w =
     (case (case weights of
              Some df \<Rightarrow> (Inr df, w)
            | None \<Rightarrow>
                (case prepare_spatial_weights_data WEIGHTS_FILE None w of
                   (Inl e, w1) \<Rightarrow> (Inl e, w1)
                 | (Inr r, w1) \<Rightarrow> (Inr (frames w1 ! r), w1))) of
        (Inl e, w1) \<Rightarrow> (Inl e, w1)
      | (Inr df, w1) \<Rightarrow>
          (case reindex_spatial_data_to_regions vectorized ds df (datasets w1) of
             (Inl e, h2) \<Rightarrow> (Inl e, w1\<lparr>datasets := h2\<rparr>)
           | (Inr ds', h2) \<Rightarrow>
               (case aggregate_reindexed_data_to_regions ds' variable aggwt agglev df
                       ''areawt'' h2 of
                  (res, h3) \<Rightarrow> (res, w1\<lparr>datasets := h3\<rparr>))))"

section \<open>Well-formed grids\<close>

text \<open>
  The data model's invariant on a grid: longitude and latitude are dimensions with an
  index coordinate, and every coordinate value addresses one grid line only.
\<close>

definition has_unique_index :: "'l dataset \<Rightarrow> string \<Rightarrow> bool" where
  "has_unique_index ds d =
     (variables ds d \<noteq> None \<and> dims ds d \<noteq> None \<and> distinct (index_cells ds d))"

definition grid_ok :: "'l dataset \<Rightarrow> bool" where
  "grid_ok ds = (has_unique_index ds ''lon'' \<and> has_unique_index ds ''lat'')"

text \<open>The dimensions other than the spatial ones and the one of the sample points.\<close>

definition extra_dim :: "string \<Rightarrow> bool" where
  "extra_dim d = (d \<noteq> ''lon'' \<and> d \<noteq> ''lat'' \<and> d \<noteq> ''reshape_index'')"

section \<open>The tabular reducer\<close>

text \<open>
  A labelled array (xarray DataArray): its variable, its coordinates by name, and the
  length of its dimensions. \<^verbatim>\<open>to_dataset(name)\<close> is the dataset holding the array
  under a name, with the array's coordinates.
\<close>

record 'l data_array =
  array :: "'l variable"
  coords :: "(string \<times> 'l variable) list"
  sizes :: "string \<Rightarrow> nat option"

definition to_dataset :: "'l data_array \<Rightarrow> string \<Rightarrow> 'l dataset" where
  "to_dataset arr name =
     \<lparr>variables = (map_of (coords arr))(name \<mapsto> array arr),
      coord_names = set (map fst (coords arr)),
      dims = sizes arr\<rparr>"

text \<open>
  The indexers of line 102 are the table's columns as arrays along \<^verbatim>\<open>SEGMENT_INDEX\<close>,
  with the row positions as index; the selection carries that index along.
\<close>

definition with_row_index :: "string \<Rightarrow> 'l dataset \<Rightarrow> 'l dataset" where
  "with_row_index pdim ds =
     \<lparr>variables = (variables ds)(pdim \<mapsto>
         \<lparr>vdims = [pdim], vdata = Floats (\<lambda>p. Fin (real (p pdim)))\<rparr>),
      coord_names = insert pdim (coord_names ds),
      dims = dims ds\<rparr>"

text \<open>
  Lines 106 to 109: \<^verbatim>\<open>reindexed[name] = column\<close> for the region columns, then for the
  weight column. On an array this assignment sets a coordinate.
\<close>

fun attach_columns :: "'l dataframe \<Rightarrow> string list \<Rightarrow> 'l dataset \<Rightarrow> error + 'l dataset" where
  "attach_columns df [] ds = Inr ds"
| "attach_columns df (name # names) ds =
     (case df_getitem df name of Inl e \<Rightarrow> Inl e | Inr c \<Rightarrow>
      (case coords_setitem ds name ''SEGMENT_INDEX'' (col_length c)
              (data_array_1d ''SEGMENT_INDEX'' c) of
         Inl e \<Rightarrow> Inl e
       | Inr ds' \<Rightarrow> attach_columns df names ds'))"

text \<open>
  \<^verbatim>\<open>to_dataframe()\<close> has one row for every position of the dimensions: a row is a
  sample point together with an index along every extra dimension. After
  \<^verbatim>\<open>reset_index()\<close> an extra dimension is a column holding the labels of its index
  coordinate, or the positions when it has none.
\<close>

definition dim_size :: "'l dataset \<Rightarrow> string \<Rightarrow> nat" where
  "dim_size ds d = (case dims ds d of Some n \<Rightarrow> n | None \<Rightarrow> 0)"

definition dim_label :: "'l dataset \<Rightarrow> string \<Rightarrow> nat \<Rightarrow> 'l cell" where
  "dim_label ds d i =
     (case variables ds d of
        Some ix \<Rightarrow> elem_cell (vdata ix) ((\<lambda>x. 0)(d := i))
      | None \<Rightarrow> Num (Fin (real i)))"

definition row_pos :: "string list \<Rightarrow> nat list \<times> nat \<Rightarrow> pos" where
  "row_pos extra_dims row =
     (\<lambda>d. if d = ''SEGMENT_INDEX'' then snd row
          else (case map_of (zip extra_dims (fst row)) d of Some j \<Rightarrow> j | None \<Rightarrow> 0))"

definition table_rows :: "'l dataset \<Rightarrow> string list \<Rightarrow> (nat list \<times> nat) list" where
  "table_rows ds extra_dims =
     List.product (product_lists (map (\<lambda>d. [0..<dim_size ds d]) extra_dims))
       [0..<dim_size ds ''SEGMENT_INDEX'']"

definition row_key :: "'l dataset \<Rightarrow> string list \<Rightarrow> string list \<Rightarrow> nat list \<times> nat \<Rightarrow> 'l cell list" where
  "row_key ds region_cols extra_dims row =
     map (\<lambda>rc. case variables ds rc of
                  Some v \<Rightarrow> elem_cell (vdata v) (row_pos extra_dims row)
                | None \<Rightarrow> Num NaN) region_cols
     @ map2 (dim_label ds) extra_dims (fst row)"

text \<open>
  Lines 114 to 126 on the rows of one group: the weighted values are summed, the
  weights are summed over the rows whose value is defined, and the result is the first
  sum times the reciprocal of the second, an undefined reciprocal being replaced by 0.
\<close>

definition group_ratio :: "(f64 \<times> f64) list \<Rightarrow> f64" where
  "group_ratio vws =
     f64_mul (nansum (map (\<lambda>(v, w). f64_mul w v) vws))
       (fillna (f64_div (Fin 1) (nansum (map (\<lambda>(v, w). where_elem (notnull v) w) vws)))
          (Fin 0))"

text \<open>
  \<^verbatim>\<open>aggregate_array\<close>. The result is the series keyed by the region labels followed by
  the labels of the extra dimensions: a key has a value when some row carries it, and
  rows with an undefined key belong to no group. pandas refuses to group by no column
  at all (ValueError).
\<close>

definition aggregate_array ::
  "'l data_array \<Rightarrow> 'l dataframe \<Rightarrow> string \<Rightarrow> string list \<Rightarrow> string \<Rightarrow> string
     \<Rightarrow> error + ('l cell list \<Rightarrow> f64 option)" where
  "aggregate_array arr weight_df weight_col region_cols lon_name lat_name =
     (let extra_dims = filter (\<lambda>d. d \<noteq> lon_name \<and> d \<noteq> lat_name) (vdims (array arr)) in
      case df_getitem weight_df lon_name of Inl e \<Rightarrow> Inl e | Inr lons \<Rightarrow>
      (case df_getitem weight_df lat_name of Inl e \<Rightarrow> Inl e | Inr lats \<Rightarrow>
       (case sel_vectorized lon_name lat_name ''SEGMENT_INDEX''
               (to_dataset arr ''__temp_weighting_output_variable__'')
               (col_cells lons) (col_cells lats) of
          Inl e \<Rightarrow> Inl e
        | Inr sampled \<Rightarrow>
       (case attach_columns weight_df (region_cols @ [weight_col])
               (with_row_index ''SEGMENT_INDEX'' sampled) of
          Inl e \<Rightarrow> Inl e
        | Inr reindexed \<Rightarrow>
       (case dataset_getitem reindexed weight_col of Inl e \<Rightarrow> Inl e | Inr wv \<Rightarrow>
       (case floats_of wv of Inl e \<Rightarrow> Inl e | Inr fw \<Rightarrow>
       (case dataset_getitem reindexed ''__temp_weighting_output_variable__'' of
          Inl e \<Rightarrow> Inl e
        | Inr xv \<Rightarrow>
       (case floats_of xv of Inl e \<Rightarrow> Inl e | Inr fx \<Rightarrow>
          if region_cols @ extra_dims = [] then Inl ValueError
          else Inr (\<lambda>key.
            if Num NaN \<in> set key then None
            else (case filter (\<lambda>row. row_key reindexed region_cols extra_dims row = key)
                         (table_rows reindexed extra_dims) of
                    [] \<Rightarrow> None
                  | rows \<Rightarrow> Some (group_ratio
                      (map (\<lambda>row. (fx (row_pos extra_dims row), fw (row_pos extra_dims row)))
                         rows))))))))))))"

section \<open>Well-formed inputs of the tabular reducer\<close>

text \<open>
  An extra dimension of an array is labelled when it has a length and, if it has an
  index coordinate, the coordinate runs along that dimension only and its labels are
  defined and distinct. (Without an index coordinate the positions are the labels.)
\<close>

definition labelled_dim :: "'l data_array \<Rightarrow> string \<Rightarrow> bool" where
  "labelled_dim arr d =
     (d \<noteq> ''SEGMENT_INDEX'' \<and> d \<noteq> ''__temp_weighting_output_variable__'' \<and>
      (case sizes arr d of None \<Rightarrow> False
       | Some n \<Rightarrow>
           (case map_of (coords arr) d of None \<Rightarrow> True
            | Some ix \<Rightarrow> vdims ix = [d] \<and> distinct (cells_along ix d n) \<and>
                         Num NaN \<notin> set (cells_along ix d n))))"

text \<open>
  A well-formed grid array: longitude and latitude are dimensions of the array and have
  an index with unique values, the array holds floats along distinct dimensions, none
  of which is the dimension of the sample points, and its extra dimensions are
  labelled.
\<close>

definition array_ok :: "'l data_array \<Rightarrow> string \<Rightarrow> string \<Rightarrow> bool" where
  "array_ok arr lon_name lat_name =
     (has_unique_index (to_dataset arr ''__temp_weighting_output_variable__'') lon_name \<and>
      has_unique_index (to_dataset arr ''__temp_weighting_output_variable__'') lat_name \<and>
      lon_name \<noteq> ''SEGMENT_INDEX'' \<and> lat_name \<noteq> ''SEGMENT_INDEX'' \<and>
      lon_name \<noteq> ''__temp_weighting_output_variable__'' \<and>
      lat_name \<noteq> ''__temp_weighting_output_variable__'' \<and>
      sizes arr ''SEGMENT_INDEX'' = None \<and>
      lon_name \<in> set (vdims (array arr)) \<and> lat_name \<in> set (vdims (array arr)) \<and>
      (case vdata (array arr) of Floats f \<Rightarrow> True | Labels g \<Rightarrow> False) \<and>
      distinct (vdims (array arr)) \<and>
      list_all (labelled_dim arr)
        (filter (\<lambda>d. d \<noteq> lon_name \<and> d \<noteq> lat_name) (vdims (array arr))))"

text \<open>
  A weights table that fits the array, for one region column: the four columns exist,
  the weight column holds floats, all are of one length, every point is a point of the
  grid, and the column names do not clash with each other, with the dimensions of the
  array or with the two names \<^verbatim>\<open>aggregate_array\<close> uses itself.
\<close>

definition table_fits ::
  "'l data_array \<Rightarrow> 'l dataframe \<Rightarrow> string \<Rightarrow> string \<Rightarrow> string \<Rightarrow> string \<Rightarrow> bool" where
  "table_fits arr df weight_col rc lon_name lat_name =
     (map_of (columns df) lon_name \<noteq> None \<and> map_of (columns df) lat_name \<noteq> None \<and>
      map_of (columns df) rc \<noteq> None \<and> is_float_column df weight_col \<and>
      length (column_cells df lat_name) = length (column_cells df lon_name) \<and>
      length (column_cells df rc) = length (column_cells df lon_name) \<and>
      length (float_column df weight_col) = length (column_cells df lon_name) \<and>
      set (column_cells df lon_name) \<subseteq>
        set (index_cells (to_dataset arr ''__temp_weighting_output_variable__'') lon_name) \<and>
      set (column_cells df lat_name) \<subseteq>
        set (index_cells (to_dataset arr ''__temp_weighting_output_variable__'') lat_name) \<and>
      rc \<noteq> weight_col \<and>
      rc \<notin> set (vdims (array arr)) \<and> weight_col \<notin> set (vdims (array arr)) \<and>
      rc \<noteq> ''SEGMENT_INDEX'' \<and> weight_col \<noteq> ''SEGMENT_INDEX'' \<and>
      rc \<noteq> ''__temp_weighting_output_variable__'' \<and>
      weight_col \<noteq> ''__temp_weighting_output_variable__'')"

text \<open>
  The dataset \<^verbatim>\<open>aggregate_array\<close> turns into a table: the array sampled at the grid
  positions of the rows, with the row index, the region labels and the weights as
  coordinates along the sample points.
\<close>

definition sampled_table ::
  "'l data_array \<Rightarrow> string \<Rightarrow> string \<Rightarrow> nat list \<Rightarrow> nat list \<Rightarrow> string \<Rightarrow> 'l column \<Rightarrow> string
     \<Rightarrow> f64 list \<Rightarrow> 'l dataset" where
  "sampled_table arr lon_name lat_name lon_pos lat_pos rc lev weight_col ws =
     (let s = pointwise True lon_name lat_name ''SEGMENT_INDEX''
                (to_dataset arr ''__temp_weighting_output_variable__'') lon_pos lat_pos
      in \<lparr>variables = (variables s)
             (''SEGMENT_INDEX'' \<mapsto> \<lparr>vdims = [''SEGMENT_INDEX''],
                 vdata = Floats (\<lambda>p. Fin (real (p ''SEGMENT_INDEX'')))\<rparr>,
              rc \<mapsto> data_array_1d ''SEGMENT_INDEX'' lev,
              weight_col \<mapsto> data_array_1d ''SEGMENT_INDEX'' (FloatCol ws)),
           coord_names = insert weight_col (insert rc
             (insert ''SEGMENT_INDEX'' (coord_names s))),
           dims = (dims s)(''SEGMENT_INDEX'' \<mapsto> length lon_pos)\<rparr>)"

section \<open>Weight values and result keys\<close>

text \<open>
  A weight value of the data model: non-negative, or undefined where it is missing.
\<close>

fun weight_ok :: "f64 \<Rightarrow> bool" where
  "weight_ok (Fin a) = (0 \<le> a)"
| "weight_ok PInf = True"
| "weight_ok NaN = True"
| "weight_ok NInf = False"

text \<open>
  The extra dimensions of an array, a choice of one position along each of them, and the
  key the result series of \<^verbatim>\<open>aggregate_array\<close> has for a region label at such a
  choice: the label followed by the labels of the extra dimensions.
\<close>

definition extra_dims_of :: "'l data_array \<Rightarrow> string \<Rightarrow> string \<Rightarrow> string list" where
  "extra_dims_of arr lon_name lat_name =
     filter (\<lambda>d. d \<noteq> lon_name \<and> d \<noteq> lat_name) (vdims (array arr))"

definition extra_positions :: "'l data_array \<Rightarrow> string \<Rightarrow> string \<Rightarrow> nat list \<Rightarrow> bool" where
  "extra_positions arr lon_name lat_name e =
     list_all2 (\<lambda>d j. j < dim_size (to_dataset arr ''__temp_weighting_output_variable__'') d)
       (extra_dims_of arr lon_name lat_name) e"

definition series_key ::
  "'l data_array \<Rightarrow> string \<Rightarrow> string \<Rightarrow> 'l cell \<Rightarrow> nat list \<Rightarrow> 'l cell list" where
  "series_key arr lon_name lat_name r e =
     r # map2 (dim_label (to_dataset arr ''__temp_weighting_output_variable__''))
            (extra_dims_of arr lon_name lat_name) e"

section \<open>Comparing the two reducers\<close>






section \<open>Example data\<close>

text \<open>
  Three sample points and two time steps of a variable \<^verbatim>\<open>tas\<close>, already reindexed,
  and a weights table for them: the second point has no population weight, the third a
  negative one.
\<close>

definition example_points :: "string dataset" where
  "example_points =
     \<lparr>variables = [''tas'' \<mapsto> \<lparr>vdims = [''time'', ''reshape_index''],
         vdata = Floats (\<lambda>p. [[Fin 10, Fin 20, Fin 30], [Fin 1, NaN, Fin 3]]
                                 ! p ''time'' ! p ''reshape_index'')\<rparr>],
      coord_names = {}, dims = [''time'' \<mapsto> 2, ''reshape_index'' \<mapsto> 3]\<rparr>"

definition example_weights :: "string dataframe" where
  "example_weights =
     \<lparr>index_name = Some ''reshape_index'',
      columns = [(''lon'', FloatCol [Fin (- (1439 / 8)), Fin 0, Fin 0]),
                 (''lat'', FloatCol [Fin 0, Fin 0, Fin 1]),
                 (''popwt'', FloatCol [Fin 1, Fin 0, Fin (- 2)]),
                 (''areawt'', FloatCol [Fin 5, Fin 3, Fin 4]),
                 (''ISO'', LabelCol [''B'', ''A'', ''B''])]\<rparr>"

text \<open>
  The grid the points are sampled from (two longitudes, two latitudes, two time steps),
  the weights file as it is stored, with a pixel centre at 180.125 degrees, and a
  process state holding the grid and the file.
\<close>

definition example_grid :: "string dataset" where
  "example_grid =
     \<lparr>variables =
        [''lon'' \<mapsto> \<lparr>vdims = [''lon''],
                     vdata = Floats (\<lambda>p. [Fin (- (1439 / 8)), Fin 0] ! p ''lon'')\<rparr>,
         ''lat'' \<mapsto> \<lparr>vdims = [''lat''],
                     vdata = Floats (\<lambda>p. [Fin 0, Fin 1] ! p ''lat'')\<rparr>,
         ''tas'' \<mapsto> \<lparr>vdims = [''time'', ''lat'', ''lon''],
                     vdata = Floats (\<lambda>p. [[[Fin 10, Fin 20], [Fin 40, Fin 30]],
                                            [[Fin 1, NaN], [Fin 4, Fin 3]]]
                                 ! p ''time'' ! p ''lat'' ! p ''lon'')\<rparr>],
      coord_names = {''lon'', ''lat''},
      dims = [''time'' \<mapsto> 2, ''lat'' \<mapsto> 2, ''lon'' \<mapsto> 2]\<rparr>"

definition example_file :: "string dataframe" where
  "example_file =
     \<lparr>index_name = None,
      columns = [(''pix_cent_x'', FloatCol [Fin (1441 / 8), Fin 0, Fin 0]),
                 (''pix_cent_y'', FloatCol [Fin 0, Fin 0, Fin 1]),
                 (''popwt'', FloatCol [Fin 1, Fin 0, Fin (- 2)]),
                 (''areawt'', FloatCol [Fin 5, Fin 3, Fin 4]),
                 (''ISO'', LabelCol [''B'', ''A'', ''B''])]\<rparr>"

definition example_world :: "string world" where
  "example_world =
     \<lparr>datasets = [example_grid], frames = [], memo = (\<lambda>k. None),
      csv_files = [''weights.csv'' \<mapsto> example_file], archives = (\<lambda>k. None),
      reads = 0\<rparr>"

text \<open>The same table with the first longitude left at 180.125, which the grid lacks.\<close>

definition example_unaligned_weights :: "string dataframe" where
  "example_unaligned_weights =
     \<lparr>index_name = Some ''reshape_index'',
      columns = [(''lon'', FloatCol [Fin (1441 / 8), Fin 0, Fin 0]),
                 (''lat'', FloatCol [Fin 0, Fin 0, Fin 1]),
                 (''popwt'', FloatCol [Fin 1, Fin 0, Fin (- 2)]),
                 (''areawt'', FloatCol [Fin 5, Fin 3, Fin 4]),
                 (''ISO'', LabelCol [''B'', ''A'', ''B''])]\<rparr>"

text \<open>The grid as an array: the variable \<^verbatim>\<open>tas\<close> with its index coordinates.\<close>

definition example_array :: "string data_array" where
  "example_array =
     \<lparr>array = \<lparr>vdims = [''time'', ''lat'', ''lon''],
                vdata = Floats (\<lambda>p. [[[Fin 10, Fin 20], [Fin 40, Fin 30]],
                                       [[Fin 1, NaN], [Fin 4, Fin 3]]]
                                 ! p ''time'' ! p ''lat'' ! p ''lon'')\<rparr>,
      coords = [(''lon'', \<lparr>vdims = [''lon''],
                    vdata = Floats (\<lambda>p. [Fin (- (1439 / 8)), Fin 0] ! p ''lon'')\<rparr>),
                (''lat'', \<lparr>vdims = [''lat''],
                    vdata = Floats (\<lambda>p. [Fin 0, Fin 1] ! p ''lat'')\<rparr>)],
      sizes = [''time'' \<mapsto> 2, ''lat'' \<mapsto> 2, ''lon'' \<mapsto> 2]\<rparr>"

text \<open>
  The weights table with no area weight at the second point, the only point of region
  \<^verbatim>\<open>A\<close>: the weights in force of that region sum to zero.
\<close>

definition example_zero_weights :: "string dataframe" where
  "example_zero_weights =
     \<lparr>index_name = Some ''reshape_index'',
      columns = [(''lon'', FloatCol [Fin (- (1439 / 8)), Fin 0, Fin 0]),
                 (''lat'', FloatCol [Fin 0, Fin 0, Fin 1]),
                 (''popwt'', FloatCol [Fin 1, Fin 0, Fin (- 2)]),
                 (''areawt'', FloatCol [Fin 5, Fin 0, Fin 4]),
                 (''ISO'', LabelCol [''B'', ''A'', ''B''])]\<rparr>"


chapter \<open>Properties\<close>

section \<open>The weighted reducer: how a run goes\<close>

lemma is_float_columnE:
  assumes "is_float_column df name"
  obtains xs where "map_of (columns df) name = Some (FloatCol xs)" "float_column df name = xs"
  using assms unfolding is_float_column_def float_column_def
  by (auto split: option.splits column.splits)

lemma float_at_NoneE:
  assumes "float_at d name p0 \<noteq> None"
  obtains dx fx where "variables d name = Some \<lparr>vdims = dx, vdata = Floats fx\<rparr>"
proof -
  from assms obtain x fx where x: "variables d name = Some x" "vdata x = Floats fx"
    unfolding float_at_def by (auto split: option.splits elems.splits)
  then have "variables d name = Some \<lparr>vdims = vdims x, vdata = Floats fx\<rparr>"
    by (cases x) simp
  then show thesis by (rule that)
qed

lemma reducer_ok_cases:
  assumes "reducer_ok ds variable aggwt agglev weights backup_aggwt h"
  obtains lev ws bs dx fx where
    "ds < length h" "variable \<noteq> aggwt" "variable \<noteq> agglev" "aggwt \<noteq> agglev"
    "map_of (columns weights) agglev = Some lev"
    "map_of (columns weights) aggwt = Some (FloatCol ws)"
    "map_of (columns weights) backup_aggwt = Some (FloatCol bs)"
    "variables (h ! ds) variable = Some \<lparr>vdims = dx, vdata = Floats fx\<rparr>"
    "length ws = col_length lev" "length bs = col_length lev"
    "dims (h ! ds) ''reshape_index'' = None \<or> dims (h ! ds) ''reshape_index'' = Some (col_length lev)"
proof -
  from assms have a: "ds < length h" "variable \<noteq> aggwt" "variable \<noteq> agglev" "aggwt \<noteq> agglev"
    by (simp_all add: reducer_ok_def)
  from assms obtain lev where lev: "map_of (columns weights) agglev = Some lev"
    by (auto simp: reducer_ok_def)
  then have cc: "length (column_cells weights agglev) = col_length lev"
    by (simp add: column_cells_def)
  from assms obtain ws where ws: "map_of (columns weights) aggwt = Some (FloatCol ws)"
    "float_column weights aggwt = ws"
    by (auto simp: reducer_ok_def elim: is_float_columnE)
  from assms obtain bs where bs: "map_of (columns weights) backup_aggwt = Some (FloatCol bs)"
    "float_column weights backup_aggwt = bs"
    by (auto simp: reducer_ok_def elim: is_float_columnE)
  from assms have "float_at (h ! ds) variable (\<lambda>d. 0) \<noteq> None"
    unfolding reducer_ok_def by blast
  then obtain dx fx where x: "variables (h ! ds) variable = Some \<lparr>vdims = dx, vdata = Floats fx\<rparr>"
    by (rule float_at_NoneE)
  from assms cc ws bs have r: "length ws = col_length lev" "length bs = col_length lev"
    "dims (h ! ds) ''reshape_index'' = None \<or> dims (h ! ds) ''reshape_index'' = Some (col_length lev)"
    by (auto simp: reducer_ok_def)
  show thesis using that[OF a lev ws(1) bs(1) x r] .
qed


lemma reducer_run:
  assumes "ds < length h" "aggwt \<noteq> agglev"
    "map_of (columns weights) agglev = Some lev"
    "map_of (columns weights) aggwt = Some (FloatCol ws)"
    "map_of (columns weights) backup_aggwt = Some (FloatCol bs)"
    "length ws = col_length lev" "length bs = col_length lev"
    "dims (h ! ds) ''reshape_index'' = None \<or> dims (h ! ds) ''reshape_index'' = Some (col_length lev)"
  shows "aggregate_reindexed_data_to_regions ds variable aggwt agglev weights backup_aggwt h =
           (weighted variable aggwt agglev (mutated (h ! ds) agglev aggwt lev ws bs),
            h[ds := mutated (h ! ds) agglev aggwt lev ws bs])"
  using assms
  by (auto simp: aggregate_reindexed_data_to_regions_def mutate_def attach_region_labels_def
      attach_weights_def apply_fallback_def df_getitem_def coords_setitem_def dataset_setitem_def
      dataset_getitem_def mutated_def)


lemma cells_along_data_array:
  "cells_along (data_array_1d d c) d n = map (col_cell c) [0..<n]"
  by (cases c) (simp_all add: cells_along_def)

lemma column_cells_Some:
  "map_of (columns df) name = Some c \<Longrightarrow> column_cells df name = map (col_cell c) [0..<col_length c]"
  by (simp add: column_cells_def)

lemma set_group_keys: "set (group_keys cs) = set cs - {Num NaN}"
  by (auto simp: group_keys_def)


lemma group_keys_position:
  assumes "r \<in> set cs" "r \<noteq> Num NaN"
  obtains k where "k < length (group_keys cs)" "group_keys cs ! k = r"
  using assms set_group_keys[of cs] by (metis DiffI in_set_conv_nth singletonD)

lemma key_cells:
  assumes "set ks \<subseteq> set (map (col_cell c) [0..<col_length c])"
  shows "cells_along \<lparr>vdims = [d], vdata = key_elems (vdata (data_array_1d d' c)) ks d\<rparr> d (length ks) = ks"
proof (rule nth_equalityI)
  show "length (cells_along \<lparr>vdims = [d], vdata = key_elems (vdata (data_array_1d d' c)) ks d\<rparr> d (length ks)) = length ks"
    by (simp add: cells_along_def)
next
  fix k assume "k < length (cells_along \<lparr>vdims = [d], vdata = key_elems (vdata (data_array_1d d' c)) ks d\<rparr> d (length ks))"
  then have k: "k < length ks" by (simp add: cells_along_def)
  then have "ks ! k \<in> set (map (col_cell c) [0..<col_length c])"
    using assms by (meson nth_mem subsetD)
  then obtain i where "ks ! k = col_cell c i" by auto
  with k show "cells_along \<lparr>vdims = [d], vdata = key_elems (vdata (data_array_1d d' c)) ks d\<rparr> d (length ks) ! k = ks ! k"
    by (cases c) (simp_all add: cells_along_def)
qed

lemma weighted_mutated:
  fixes lev :: "('l::linorder) column"
  assumes "variable \<noteq> aggwt" "variable \<noteq> agglev" "aggwt \<noteq> agglev"
    and "variables d variable = Some \<lparr>vdims = dx, vdata = Floats fx\<rparr>"
  defines "cs \<equiv> map (col_cell lev) [0..<col_length lev]"
  shows "\<exists>out. weighted variable aggwt agglev (mutated d agglev aggwt lev ws bs) = Inr out \<and>
     index_cells out agglev = group_keys cs \<and>
     (\<forall>p. float_at out variable p = Some (f64_div
        (nansum (map (\<lambda>i. f64_mul (fx (p(''reshape_index'' := i))) (fallback_weight (ws ! i) (bs ! i)))
           (members cs (group_keys cs ! p agglev))))
        (nansum (map (\<lambda>i. fallback_weight (ws ! i) (bs ! i))
           (members cs (group_keys cs ! p agglev))))))"
proof -
  have sub: "set (group_keys cs) \<subseteq> set (map (col_cell lev) [0..<col_length lev])"
    using set_group_keys[of cs] by (auto simp: cs_def)
  show ?thesis
    using assms(1-4) key_cells[OF sub, of agglev "''reshape_index''"]
    by (simp add: weighted_def mutated_def dataset_getitem_def var_mul_def var_div_def
        groupby_sum_def cells_along_data_array index_cells_def float_at_def Let_def cs_def)
qed




lemma f64_gt0_iff: "f64_gt0 w \<longleftrightarrow> w = PInf \<or> (\<exists>a>0. w = Fin a)"
  by (cases w) auto

lemma no_contribution_iff: "no_contribution x \<longleftrightarrow> (\<forall>xs. nansum (x # xs) = nansum xs)"
proof
  assume "no_contribution x"
  then show "\<forall>xs. nansum (x # xs) = nansum xs"
  proof (intro allI)
    fix xs
    from \<open>no_contribution x\<close> show "nansum (x # xs) = nansum xs"
      by (cases "nansum xs") (auto simp: no_contribution_def)
  qed
next
  assume "\<forall>xs. nansum (x # xs) = nansum xs"
  then have "nansum [x] = Fin 0" by (metis nansum.simps(1))
  then show "no_contribution x"
    by (cases x) (auto simp: no_contribution_def split: if_splits)
qed

lemma no_contribution_mul: "no_contribution e \<Longrightarrow> no_contribution (f64_mul v e)"
  by (cases v) (auto simp: no_contribution_def)


section \<open>The fallback to the backup weight\<close>





section \<open>The weighted mean of a region\<close>






text \<open>
  On defined data the formula is the weighted arithmetic mean of the real numbers.
\<close>

lemma nansum_Fin: "nansum (map Fin xs) = Fin (sum_list xs)"
  by (induction xs) simp_all

lemma weighted_mean_spec_finite:
  assumes "length vs = length ws" "sum_list ws \<noteq> 0"
  shows "weighted_mean_spec (map Fin vs) (map Fin ws) =
     Fin (sum_list (map2 (*) vs ws) / sum_list ws)"
proof -
  have m: "map2 f64_mul (map Fin vs) (map Fin ws) = map Fin (map2 (*) vs ws)"
    using assms(1) by (induction vs ws rule: list_induct2) simp_all
  show ?thesis
    unfolding weighted_mean_spec_def m nansum_Fin using assms(2) by simp
qed

section \<open>The weights provider: normalization and cache\<close>


lemma relabel_column_length [simp]: "col_length (relabel_column c) = col_length c"
  by (cases c) simp_all

lemma relabel_column_cell:
  "i < col_length c \<Longrightarrow>
   col_cell (relabel_column c) i =
     (if col_cell c i = Num (Fin (1441 / 8)) then Num (Fin (- (1439 / 8))) else col_cell c i)"
  by (cases c) simp_all

lemma prepare_body_columns:
  assumes "load_weights WF arg w = (Inr raw, w1)"
    and "map_of (columns raw) ''pix_cent_x'' \<noteq> None"
  shows "prepare_body WF arg w =
     (Inr \<lparr>index_name = Some ''reshape_index'',
           columns = map (\<lambda>(name, col). (rename_column name,
              if name = ''pix_cent_x'' then relabel_column col else col)) (columns raw)\<rparr>, w1)"
  using assms
  by (auto simp: prepare_body_def relabel_out_of_bounds_def df_getitem_def
      split: option.splits intro!: map_cong)

text \<open>
  C5. The table the weights provider returns has the columns of the loaded source, in
  the same order and of the same length; a column keeps its name, but for the two pixel
  centre columns, which are renamed; every cell is the cell of the source, but for the
  cells of the pixel centre longitude that are 180.125 in the source, which are
  -179.875 (the fractions 1441/8 and -1439/8).
\<close>

theorem longitude_relabelled_all_else_unchanged:
  assumes "memo w arg = None"
    and "load_weights WEIGHTS_FILE arg w = (Inr raw, w1)"
    and "map_of (columns raw) ''pix_cent_x'' \<noteq> None"
  shows "\<exists>r w'. prepare_spatial_weights_data WEIGHTS_FILE arg w = (Inr r, w') \<and>
     r < length (frames w') \<and>
     length (columns (frames w' ! r)) = length (columns raw) \<and>
     (\<forall>j < length (columns raw).
        fst (columns (frames w' ! r) ! j) = rename_column (fst (columns raw ! j)) \<and>
        col_length (snd (columns (frames w' ! r) ! j)) = col_length (snd (columns raw ! j)) \<and>
        (\<forall>i < col_length (snd (columns raw ! j)).
           col_cell (snd (columns (frames w' ! r) ! j)) i =
             (if fst (columns raw ! j) = ''pix_cent_x'' \<and>
                 col_cell (snd (columns raw ! j)) i = Num (Fin (1441 / 8))
              then Num (Fin (- (1439 / 8)))
              else col_cell (snd (columns raw ! j)) i)))"
proof -
  let ?t = "\<lparr>index_name = Some ''reshape_index'',
           columns = map (\<lambda>(name, col). (rename_column name,
              if name = ''pix_cent_x'' then relabel_column col else col)) (columns raw)\<rparr>"
  have run: "prepare_spatial_weights_data WEIGHTS_FILE arg w =
      (Inr (length (frames w1)),
       w1\<lparr>frames := frames w1 @ [?t], memo := (memo w1)(arg \<mapsto> length (frames w1))\<rparr>)"
    using assms(1) prepare_body_columns[OF assms(2,3)]
    by (simp add: prepare_spatial_weights_data_def)
  have cols: "\<forall>j < length (columns raw).
        fst (columns ?t ! j) = rename_column (fst (columns raw ! j)) \<and>
        col_length (snd (columns ?t ! j)) = col_length (snd (columns raw ! j)) \<and>
        (\<forall>i < col_length (snd (columns raw ! j)).
           col_cell (snd (columns ?t ! j)) i =
             (if fst (columns raw ! j) = ''pix_cent_x'' \<and>
                 col_cell (snd (columns raw ! j)) i = Num (Fin (1441 / 8))
              then Num (Fin (- (1439 / 8)))
              else col_cell (snd (columns raw ! j)) i))"
    by (auto simp: relabel_column_cell split: prod.splits)
  let ?w' = "w1\<lparr>frames := frames w1 @ [?t], memo := (memo w1)(arg \<mapsto> length (frames w1))\<rparr>"
  have fr: "frames ?w' ! length (frames w1) = ?t" "length (frames w1) < length (frames ?w')"
    by simp_all
  have len: "length (columns ?t) = length (columns raw)" by simp
  show ?thesis
    apply (rule exI[of _ "length (frames w1)"])
    apply (rule exI[of _ ?w'])
    unfolding fr(1)
    using run fr(2) len cols by blast
qed

theorem longitude_relabelled_all_else_unchanged_witness:
  "memo example_world (Some ''weights.csv'') = None \<and>
   col_cell (snd (columns example_file ! 0)) 0 = Num (Fin (1441 / 8)) \<and>
   (\<exists>r w'. prepare_spatial_weights_data ''default'' (Some ''weights.csv'') example_world
        = (Inr r, w') \<and>
      fst (columns (frames w' ! r) ! 0) = ''lon'' \<and>
      col_cell (snd (columns (frames w' ! r) ! 0)) 0 = Num (Fin (- (1439 / 8))) \<and>
      col_cell (snd (columns (frames w' ! r) ! 0)) 1 = Num (Fin 0))"
proof -
  have m: "memo example_world (Some ''weights.csv'') = None" by code_simp
  have l: "load_weights ''default'' (Some ''weights.csv'') example_world =
      (Inr example_file, example_world\<lparr>reads := 1\<rparr>)"
    by (simp add: load_weights_def example_world_def)
  have c: "map_of (columns example_file) ''pix_cent_x'' \<noteq> None" by code_simp
  have f: "fst (columns example_file ! 0) = ''pix_cent_x''"
    "col_cell (snd (columns example_file ! 0)) 0 = Num (Fin (1441 / 8))"
    "col_cell (snd (columns example_file ! 0)) 1 = Num (Fin 0)"
    "0 < length (columns example_file)" "col_length (snd (columns example_file ! 0)) = 3"
    by (simp_all add: example_file_def)
  from longitude_relabelled_all_else_unchanged[OF m l c] obtain r w' where
    run: "prepare_spatial_weights_data ''default'' (Some ''weights.csv'') example_world = (Inr r, w')"
    and cols: "\<And>j. j < length (columns example_file) \<Longrightarrow>
        fst (columns (frames w' ! r) ! j) = rename_column (fst (columns example_file ! j)) \<and>
        (\<forall>i < col_length (snd (columns example_file ! j)).
           col_cell (snd (columns (frames w' ! r) ! j)) i =
             (if fst (columns example_file ! j) = ''pix_cent_x'' \<and>
                 col_cell (snd (columns example_file ! j)) i = Num (Fin (1441 / 8))
              then Num (Fin (- (1439 / 8)))
              else col_cell (snd (columns example_file ! j)) i))"
    by blast
  from cols[OF f(4)] f have "fst (columns (frames w' ! r) ! 0) = ''lon''"
    "col_cell (snd (columns (frames w' ! r) ! 0)) 0 = Num (Fin (- (1439 / 8)))"
    "col_cell (snd (columns (frames w' ! r) ! 0)) 1 = Num (Fin 0)"
    by (simp_all add: rename_column_def)
  with run m f(2) show ?thesis by blast
qed



section \<open>The spatial reindexer: lookup failure\<close>

lemma position_less: "x \<in> set ys \<Longrightarrow> position x ys < length ys"
  by (induction ys) auto

lemma nth_position: "x \<in> set ys \<Longrightarrow> ys ! position x ys = x"
  by (induction ys) auto

lemma has_unique_indexE:
  assumes "has_unique_index ds d"
  obtains ix n where "variables ds d = Some ix" "dims ds d = Some n"
    "index_cells ds d = cells_along ix d n" "distinct (cells_along ix d n)"
  using assms unfolding has_unique_index_def index_cells_def by auto

lemma index_positions_found:
  assumes "has_unique_index ds d" "set labels \<subseteq> set (index_cells ds d)"
  shows "index_positions ds d labels = Inr (map (\<lambda>l. position l (index_cells ds d)) labels)"
proof -
  from assms(1) obtain ix n where i: "variables ds d = Some ix" "dims ds d = Some n"
    "index_cells ds d = cells_along ix d n" "distinct (cells_along ix d n)"
    by (rule has_unique_indexE)
  have "\<not> list_ex (\<lambda>l. l \<notin> set (cells_along ix d n)) labels"
    using assms(2) i(3) by (auto simp: list_ex_iff)
  then show ?thesis using i by (simp add: index_positions_def)
qed

lemma index_positions_missing:
  assumes "has_unique_index ds d" "\<not> set labels \<subseteq> set (index_cells ds d)"
  shows "index_positions ds d labels = Inl KeyError"
proof -
  from assms(1) obtain ix n where i: "variables ds d = Some ix" "dims ds d = Some n"
    "index_cells ds d = cells_along ix d n" "distinct (cells_along ix d n)"
    by (rule has_unique_indexE)
  have "list_ex (\<lambda>l. l \<notin> set (cells_along ix d n)) labels"
    using assms(2) i(3) by (auto simp: list_ex_iff)
  then show ?thesis using i by (simp add: index_positions_def)
qed

lemma column_cells_col_cells:
  "map_of (columns df) name = Some c \<Longrightarrow> column_cells df name = col_cells c"
  by (simp add: column_cells_def col_cells_def)

lemma sel_missing:
  assumes "grid_ok ds"
    and "\<not> set lons \<subseteq> set (index_cells ds ''lon'') \<or> \<not> set lats \<subseteq> set (index_cells ds ''lat'')"
  shows "sel_vectorized ''lon'' ''lat'' ''reshape_index'' ds lons lats = Inl KeyError" "sel_points ''reshape_index'' ds lats lons = Inl KeyError"
proof -
  from assms(1) have u: "has_unique_index ds ''lon''" "has_unique_index ds ''lat''"
    by (simp_all add: grid_ok_def)
  show "sel_vectorized ''lon'' ''lat'' ''reshape_index'' ds lons lats = Inl KeyError"
  proof (cases "set lons \<subseteq> set (index_cells ds ''lon'')")
    case True
    with assms(2) have "\<not> set lats \<subseteq> set (index_cells ds ''lat'')" by simp
    then show ?thesis
      using index_positions_found[OF u(1) True] index_positions_missing[OF u(2)]
      by (simp add: sel_vectorized_def)
  next
    case False
    then show ?thesis using index_positions_missing[OF u(1)] by (simp add: sel_vectorized_def)
  qed
  show "sel_points ''reshape_index'' ds lats lons = Inl KeyError"
  proof (cases "set lats \<subseteq> set (index_cells ds ''lat'')")
    case True
    with assms(2) have "\<not> set lons \<subseteq> set (index_cells ds ''lon'')" by simp
    then show ?thesis
      using index_positions_found[OF u(2) True] index_positions_missing[OF u(1)]
      by (simp add: sel_points_def)
  next
    case False
    then show ?thesis using index_positions_missing[OF u(2)] by (simp add: sel_points_def)
  qed
qed

text \<open>
  C7. When a row of the weights table asks for a longitude or a latitude that the
  grid's coordinate axis does not hold, the reindexer raises KeyError, a LookupError,
  and creates no object; the entry point hands the same error to its caller, with the
  process state as it was: nothing is retried and nothing recovered.
\<close>

theorem missing_coordinate_raises_lookup_error:
  fixes df :: "('l::linorder) dataframe"
  assumes "ds < length (datasets w)" and "grid_ok (datasets w ! ds)"
    and "map_of (columns df) ''lon'' \<noteq> None" and "map_of (columns df) ''lat'' \<noteq> None"
    and "\<not> set (column_cells df ''lon'') \<subseteq> set (index_cells (datasets w ! ds) ''lon'') \<or>
         \<not> set (column_cells df ''lat'') \<subseteq> set (index_cells (datasets w ! ds) ''lat'')"
  shows "\<exists>e. is_LookupError e \<and>
     reindex_spatial_data_to_regions vectorized ds df (datasets w) = (Inl e, datasets w) \<and>
     weighted_aggregate_grid_to_regions vectorized WEIGHTS_FILE ds variable aggwt agglev
       (Some df) w = (Inl e, w)"
proof -
  from assms(3,4) obtain lons lats where
    c: "map_of (columns df) ''lon'' = Some lons" "map_of (columns df) ''lat'' = Some lats"
    by auto
  note cc = column_cells_col_cells[OF c(1)] column_cells_col_cells[OF c(2)]
  have r: "reindex_spatial_data_to_regions vectorized ds df (datasets w) = (Inl KeyError, datasets w)"
    using assms(1) c sel_missing[OF assms(2) assms(5)[unfolded cc]]
    by (simp add: reindex_spatial_data_to_regions_def df_getattr_def)
  then have "weighted_aggregate_grid_to_regions vectorized WEIGHTS_FILE ds variable aggwt agglev
       (Some df) w = (Inl KeyError, w)"
    by (simp add: weighted_aggregate_grid_to_regions_def)
  with r show ?thesis by (intro exI[of _ KeyError]) simp
qed

theorem missing_coordinate_raises_lookup_error_witness:
  "grid_ok (datasets example_world ! 0) \<and>
   Num (Fin (1441 / 8)) \<in> set (column_cells example_unaligned_weights ''lon'') \<and>
   Num (Fin (1441 / 8)) \<notin> set (index_cells (datasets example_world ! 0) ''lon'') \<and>
   (\<exists>e. is_LookupError e \<and>
      weighted_aggregate_grid_to_regions True ''default'' 0 ''tas'' ''popwt'' ''ISO''
        (Some example_unaligned_weights) example_world = (Inl e, example_world))"
proof -
  have a: "0 < length (datasets example_world)" by code_simp
  have g: "grid_ok (datasets example_world ! 0)" by code_simp
  have c: "map_of (columns example_unaligned_weights) ''lon'' \<noteq> None"
    "map_of (columns example_unaligned_weights) ''lat'' \<noteq> None"
    by code_simp+
  have i: "Num (Fin (1441 / 8)) \<in> set (column_cells example_unaligned_weights ''lon'')"
    "Num (Fin (1441 / 8)) \<notin> set (index_cells (datasets example_world ! 0) ''lon'')"
    by code_simp+
  then have m: "\<not> set (column_cells example_unaligned_weights ''lon'')
           \<subseteq> set (index_cells (datasets example_world ! 0) ''lon'') \<or>
         \<not> set (column_cells example_unaligned_weights ''lat'')
           \<subseteq> set (index_cells (datasets example_world ! 0) ''lat'')"
    by blast
  from missing_coordinate_raises_lookup_error[OF a g c m,
      of True "''default''" "''tas''" "''popwt''" "''ISO''"] g i
  show ?thesis by blast
qed

section \<open>The spatial reindexer: one entry per row\<close>

lemma elem_cell_map_pos [simp]: "elem_cell (map_pos t e) p = elem_cell e (t p)"
  by (cases e) simp_all

lemma filter_extra_map:
  "filter extra_dim (map (\<lambda>d. if d = ''lon'' \<or> d = ''lat'' then ''reshape_index'' else d) ds)
     = filter extra_dim ds"
  by (induction ds) (auto simp: extra_dim_def)

lemma filter_keep_first:
  "filter P (rev (remdups (rev xs))) = rev (remdups (rev (filter P xs)))"
  by (simp add: rev_filter remdups_filter)

lemma vectorized_dims_extra:
  assumes "distinct ds"
  shows "filter extra_dim (vectorized_dims ''lon'' ''lat'' ''reshape_index'' ds) = filter extra_dim ds"
  unfolding vectorized_dims_def filter_keep_first filter_extra_map
  using assms by (simp add: distinct_remdups_id)

lemma vectorized_dims_set:
  "set (vectorized_dims ''lon'' ''lat'' ''reshape_index'' ds) =
     (\<lambda>d. if d = ''lon'' \<or> d = ''lat'' then ''reshape_index'' else d) ` set ds"
  by (simp add: vectorized_dims_def)

lemma vectorized_dims_distinct: "distinct (vectorized_dims ''lon'' ''lat'' ''reshape_index'' ds)"
  by (simp add: vectorized_dims_def)

lemma count_distinct: "distinct xs \<Longrightarrow> x \<in> set xs \<Longrightarrow> length (filter (\<lambda>d. d = x) xs) = 1"
  by (induction xs) (auto simp: filter_empty_conv)


lemma sel_found:
  assumes "grid_ok ds" "set lons \<subseteq> set (index_cells ds ''lon'')"
    "set lats \<subseteq> set (index_cells ds ''lat'')" "length lons = length lats"
    "dims ds ''reshape_index'' = None"
  shows "sel_vectorized ''lon'' ''lat'' ''reshape_index'' ds lons lats = Inr (pointwise True ''lon'' ''lat'' ''reshape_index'' ds
            (map (\<lambda>l. position l (index_cells ds ''lon'')) lons)
            (map (\<lambda>l. position l (index_cells ds ''lat'')) lats))"
    and "sel_points ''reshape_index'' ds lats lons = Inr (pointwise False ''lon'' ''lat'' ''reshape_index'' ds
            (map (\<lambda>l. position l (index_cells ds ''lon'')) lons)
            (map (\<lambda>l. position l (index_cells ds ''lat'')) lats))"
proof -
  from assms(1) have u: "has_unique_index ds ''lon''" "has_unique_index ds ''lat''"
    by (simp_all add: grid_ok_def)
  note p = index_positions_found[OF u(1) assms(2)] index_positions_found[OF u(2) assms(3)]
  show "sel_vectorized ''lon'' ''lat'' ''reshape_index'' ds lons lats = Inr (pointwise True ''lon'' ''lat'' ''reshape_index'' ds
            (map (\<lambda>l. position l (index_cells ds ''lon'')) lons)
            (map (\<lambda>l. position l (index_cells ds ''lat'')) lats))"
    using assms(4,5) by (simp add: sel_vectorized_def p)
  show "sel_points ''reshape_index'' ds lats lons = Inr (pointwise False ''lon'' ''lat'' ''reshape_index'' ds
            (map (\<lambda>l. position l (index_cells ds ''lon'')) lons)
            (map (\<lambda>l. position l (index_cells ds ''lat'')) lats))"
    using assms(4,5) by (simp add: sel_points_def p)
qed

lemma reindex_found:
  assumes "ds < length h" "grid_ok (h ! ds)"
    "map_of (columns df) ''lon'' \<noteq> None" "map_of (columns df) ''lat'' \<noteq> None"
    "set (column_cells df ''lon'') \<subseteq> set (index_cells (h ! ds) ''lon'')"
    "set (column_cells df ''lat'') \<subseteq> set (index_cells (h ! ds) ''lat'')"
    "length (column_cells df ''lon'') = length (column_cells df ''lat'')"
    "dims (h ! ds) ''reshape_index'' = None"
  shows "reindex_spatial_data_to_regions vectorized ds df h =
     (Inr (length h), h @ [pointwise vectorized ''lon'' ''lat'' ''reshape_index'' (h ! ds)
        (map (\<lambda>l. position l (index_cells (h ! ds) ''lon'')) (column_cells df ''lon''))
        (map (\<lambda>l. position l (index_cells (h ! ds) ''lat'')) (column_cells df ''lat''))])"
proof -
  from assms(3,4) obtain lons lats where
    c: "map_of (columns df) ''lon'' = Some lons" "map_of (columns df) ''lat'' = Some lats"
    by auto
  note cc = column_cells_col_cells[OF c(1)] column_cells_col_cells[OF c(2)]
  show ?thesis
    using assms(1) c sel_found[OF assms(2) assms(5,6,7)[unfolded cc] assms(8)]
    unfolding cc
    by (simp add: reindex_spatial_data_to_regions_def df_getattr_def)
qed

lemma pointwise_variable_dims:
  assumes "distinct (vdims x)" "''reshape_index'' \<notin> set (vdims x)"
  shows "''lon'' \<notin> set (vdims (pointwise_variable vectorized ''lon'' ''lat'' ''reshape_index'' lp bp x))"
    "''lat'' \<notin> set (vdims (pointwise_variable vectorized ''lon'' ''lat'' ''reshape_index'' lp bp x))"
    "filter extra_dim (vdims (pointwise_variable vectorized ''lon'' ''lat'' ''reshape_index'' lp bp x)) = filter extra_dim (vdims x)"
    "spatial ''lon'' ''lat'' x \<Longrightarrow>
       length (filter (\<lambda>d. d = ''reshape_index'') (vdims (pointwise_variable vectorized ''lon'' ''lat'' ''reshape_index'' lp bp x))) = 1"
proof -
  show "''lon'' \<notin> set (vdims (pointwise_variable vectorized ''lon'' ''lat'' ''reshape_index'' lp bp x))"
    by (auto simp: pointwise_variable_def vectorized_dims_set spatial_def)
  show "''lat'' \<notin> set (vdims (pointwise_variable vectorized ''lon'' ''lat'' ''reshape_index'' lp bp x))"
    by (auto simp: pointwise_variable_def vectorized_dims_set spatial_def)
  have e: "filter extra_dim (filter (\<lambda>d. d \<noteq> ''lon'' \<and> d \<noteq> ''lat'') ds) = filter extra_dim ds" for ds
    by (induction ds) (auto simp: extra_dim_def)
  show "filter extra_dim (vdims (pointwise_variable vectorized ''lon'' ''lat'' ''reshape_index'' lp bp x)) = filter extra_dim (vdims x)"
    using assms(1) e by (simp add: pointwise_variable_def vectorized_dims_extra extra_dim_def)
  assume s: "spatial ''lon'' ''lat'' x"
  have "''reshape_index'' \<in> set (vectorized_dims ''lon'' ''lat'' ''reshape_index'' (vdims x))"
    using s by (auto simp: vectorized_dims_set spatial_def)
  then have v: "length (filter (\<lambda>d. d = ''reshape_index'') (vectorized_dims ''lon'' ''lat'' ''reshape_index'' (vdims x))) = 1"
    by (rule count_distinct[OF vectorized_dims_distinct])
  have "filter (\<lambda>d. d = ''reshape_index'') (filter (\<lambda>d. d \<noteq> ''lon'' \<and> d \<noteq> ''lat'') (vdims x)) = []"
    using assms(2) by (auto simp: filter_empty_conv)
  with s v show "length (filter (\<lambda>d. d = ''reshape_index'') (vdims (pointwise_variable vectorized ''lon'' ''lat'' ''reshape_index'' lp bp x))) = 1"
    by (simp add: pointwise_variable_def)
qed


lemma pointwise_variable_not_spatial:
  assumes "\<not> spatial ''lon'' ''lat'' x" "''reshape_index'' \<notin> set (vdims x)"
  shows "length (filter (\<lambda>d. d = ''reshape_index'') (vdims (pointwise_variable vectorized ''lon'' ''lat'' ''reshape_index'' lp bp x))) = 0"
  using assms by (auto simp: pointwise_variable_def filter_empty_conv)

lemma pointwise_variable_cell:
  "elem_cell (vdata (pointwise_variable vectorized ''lon'' ''lat'' ''reshape_index'' lp bp x)) p =
     (if spatial ''lon'' ''lat'' x
      then elem_cell (vdata x) (p(''lon'' := lp ! p ''reshape_index'',
                                   ''lat'' := bp ! p ''reshape_index''))
      else elem_cell (vdata x) p)"
  by (simp add: pointwise_variable_def at_points_def)

text \<open>
  C6. When every row of the weights table names a longitude and a latitude of the
  grid, the reindexer returns a new dataset with one entry along the dimension
  \<^verbatim>\<open>reshape_index\<close> for every row, entry \<open>i\<close> being read at the grid position that
  holds the coordinates of row \<open>i\<close>; the dataset has no longitude or latitude dimension
  any more, its other dimensions keep their length, and every variable keeps its other
  dimensions, in their order.
\<close>

theorem reindexer_one_entry_per_row:
  assumes "ds < length h" and "grid_ok (h ! ds)"
    and "dims (h ! ds) ''reshape_index'' = None"
    and "map_of (columns df) ''lon'' \<noteq> None" and "map_of (columns df) ''lat'' \<noteq> None"
    and "length (column_cells df ''lon'') = length (column_cells df ''lat'')"
    and "set (column_cells df ''lon'') \<subseteq> set (index_cells (h ! ds) ''lon'')"
    and "set (column_cells df ''lat'') \<subseteq> set (index_cells (h ! ds) ''lat'')"
  shows "\<exists>r h' d'.
     reindex_spatial_data_to_regions vectorized ds df h = (Inr r, h') \<and>
     r = length h \<and> h' = h @ [d'] \<and>
     dims d' ''reshape_index'' = Some (length (column_cells df ''lon'')) \<and>
     dims d' ''lon'' = None \<and> dims d' ''lat'' = None \<and>
     (\<forall>d. extra_dim d \<longrightarrow> dims d' d = dims (h ! ds) d) \<and>
     (\<forall>name. variables (h ! ds) name = None \<longrightarrow> variables d' name = None) \<and>
     (\<forall>name x. variables (h ! ds) name = Some x \<and> distinct (vdims x) \<and>
          ''reshape_index'' \<notin> set (vdims x) \<longrightarrow>
        (\<exists>x'. variables d' name = Some x' \<and>
           ''lon'' \<notin> set (vdims x') \<and> ''lat'' \<notin> set (vdims x') \<and>
           filter extra_dim (vdims x') = filter extra_dim (vdims x) \<and>
           length (filter (\<lambda>d. d = ''reshape_index'') (vdims x')) = (if spatial ''lon'' ''lat'' x then 1 else 0) \<and>
           (\<forall>i < length (column_cells df ''lon'').
              \<exists>a b. a < length (index_cells (h ! ds) ''lon'') \<and>
                    index_cells (h ! ds) ''lon'' ! a = column_cells df ''lon'' ! i \<and>
                    b < length (index_cells (h ! ds) ''lat'') \<and>
                    index_cells (h ! ds) ''lat'' ! b = column_cells df ''lat'' ! i \<and>
                    (\<forall>p. p ''reshape_index'' = i \<longrightarrow>
                       elem_cell (vdata x') p =
                         (if spatial ''lon'' ''lat'' x
                          then elem_cell (vdata x) (p(''lon'' := a, ''lat'' := b))
                          else elem_cell (vdata x) p)))))"
proof -
  let ?lons = "column_cells df ''lon''" and ?lats = "column_cells df ''lat''"
  let ?lp = "map (\<lambda>l. position l (index_cells (h ! ds) ''lon'')) ?lons"
  let ?bp = "map (\<lambda>l. position l (index_cells (h ! ds) ''lat'')) ?lats"
  let ?d' = "pointwise vectorized ''lon'' ''lat'' ''reshape_index'' (h ! ds) ?lp ?bp"
  have run: "reindex_spatial_data_to_regions vectorized ds df h = (Inr (length h), h @ [?d'])"
    by (rule reindex_found[OF assms(1,2,4,5,7,8,6,3)])
  have dm: "dims ?d' ''reshape_index'' = Some (length ?lons)"
    "dims ?d' ''lon'' = None" "dims ?d' ''lat'' = None"
    "\<forall>d. extra_dim d \<longrightarrow> dims ?d' d = dims (h ! ds) d"
    "\<forall>name. variables (h ! ds) name = None \<longrightarrow> variables ?d' name = None"
    by (simp_all add: pointwise_def extra_dim_def)
  have vars: "\<exists>x'. variables ?d' name = Some x' \<and>
           ''lon'' \<notin> set (vdims x') \<and> ''lat'' \<notin> set (vdims x') \<and>
           filter extra_dim (vdims x') = filter extra_dim (vdims x) \<and>
           length (filter (\<lambda>d. d = ''reshape_index'') (vdims x')) = (if spatial ''lon'' ''lat'' x then 1 else 0) \<and>
           (\<forall>i < length ?lons.
              \<exists>a b. a < length (index_cells (h ! ds) ''lon'') \<and>
                    index_cells (h ! ds) ''lon'' ! a = ?lons ! i \<and>
                    b < length (index_cells (h ! ds) ''lat'') \<and>
                    index_cells (h ! ds) ''lat'' ! b = ?lats ! i \<and>
                    (\<forall>p. p ''reshape_index'' = i \<longrightarrow>
                       elem_cell (vdata x') p =
                         (if spatial ''lon'' ''lat'' x
                          then elem_cell (vdata x) (p(''lon'' := a, ''lat'' := b))
                          else elem_cell (vdata x) p)))"
    if x: "variables (h ! ds) name = Some x" "distinct (vdims x)"
      "''reshape_index'' \<notin> set (vdims x)" for name x
  proof -
    let ?x' = "pointwise_variable vectorized ''lon'' ''lat'' ''reshape_index'' ?lp ?bp x"
    have v: "variables ?d' name = Some ?x'" using x(1) by (simp add: pointwise_def)
    note dd = pointwise_variable_dims[OF x(2,3), of vectorized ?lp ?bp]
    have cnt: "length (filter (\<lambda>d. d = ''reshape_index'') (vdims ?x')) = (if spatial ''lon'' ''lat'' x then 1 else 0)"
      using dd(4) pointwise_variable_not_spatial[OF _ x(3), of vectorized ?lp ?bp] by simp
    have rows: "\<exists>a b. a < length (index_cells (h ! ds) ''lon'') \<and>
                    index_cells (h ! ds) ''lon'' ! a = ?lons ! i \<and>
                    b < length (index_cells (h ! ds) ''lat'') \<and>
                    index_cells (h ! ds) ''lat'' ! b = ?lats ! i \<and>
                    (\<forall>p. p ''reshape_index'' = i \<longrightarrow>
                       elem_cell (vdata ?x') p =
                         (if spatial ''lon'' ''lat'' x
                          then elem_cell (vdata x) (p(''lon'' := a, ''lat'' := b))
                          else elem_cell (vdata x) p))"
      if i: "i < length ?lons" for i
    proof -
      have i': "i < length ?lats" using i assms(6) by simp
      have inl: "?lons ! i \<in> set (index_cells (h ! ds) ''lon'')"
        using assms(7) i by (meson nth_mem subsetD)
      have inb: "?lats ! i \<in> set (index_cells (h ! ds) ''lat'')"
        using assms(8) i' by (meson nth_mem subsetD)
      show ?thesis
        apply (rule exI[of _ "position (?lons ! i) (index_cells (h ! ds) ''lon'')"])
        apply (rule exI[of _ "position (?lats ! i) (index_cells (h ! ds) ''lat'')"])
        using i i' position_less[OF inl] position_less[OF inb] nth_position[OF inl] nth_position[OF inb]
        by (simp add: pointwise_variable_cell)
    qed
    show ?thesis
      apply (rule exI[of _ ?x'])
      using v dd(1,2,3) cnt rows by blast
  qed
  show ?thesis
    apply (rule exI[of _ "length h"])
    apply (rule exI[of _ "h @ [?d']"])
    apply (rule exI[of _ ?d'])
    using run dm vars by blast
qed


theorem reindexer_one_entry_per_row_witness:
  "grid_ok ([example_grid] ! 0) \<and>
   set (column_cells example_weights ''lon'') \<subseteq> set (index_cells ([example_grid] ! 0) ''lon'') \<and>
   set (column_cells example_weights ''lat'') \<subseteq> set (index_cells ([example_grid] ! 0) ''lat'') \<and>
   (\<exists>d' x'. reindex_spatial_data_to_regions True 0 example_weights [example_grid]
        = (Inr 1, [example_grid, d']) \<and>
      dims d' ''reshape_index'' = Some 3 \<and> dims d' ''lon'' = None \<and> dims d' ''time'' = Some 2 \<and>
      variables d' ''tas'' = Some x' \<and>
      filter extra_dim (vdims x') = [''time''] \<and>
      elem_cell (vdata x') ((\<lambda>d. 0)(''reshape_index'' := 2)) = Num (Fin 30))"
proof -
  have a: "0 < length [example_grid]" by simp
  have g: "grid_ok ([example_grid] ! 0)" by code_simp
  have n: "dims ([example_grid] ! 0) ''reshape_index'' = None" by code_simp
  have c: "map_of (columns example_weights) ''lon'' \<noteq> None"
    "map_of (columns example_weights) ''lat'' \<noteq> None" by code_simp+
  have l: "length (column_cells example_weights ''lon'') = length (column_cells example_weights ''lat'')"
    by code_simp
  have s: "set (column_cells example_weights ''lon'') \<subseteq> set (index_cells ([example_grid] ! 0) ''lon'')"
    "set (column_cells example_weights ''lat'') \<subseteq> set (index_cells ([example_grid] ! 0) ''lat'')"
    by code_simp+
  have ax: "index_cells ([example_grid] ! 0) ''lon'' = [Num (Fin (- (1439 / 8))), Num (Fin 0)]"
    "index_cells ([example_grid] ! 0) ''lat'' = [Num (Fin 0), Num (Fin 1)]"
    "column_cells example_weights ''lon'' ! 2 = Num (Fin 0)"
    "column_cells example_weights ''lat'' ! 2 = Num (Fin 1)"
    "length (column_cells example_weights ''lon'') = 3"
    by code_simp+
  have t: "variables ([example_grid] ! 0) ''tas'' = Some \<lparr>vdims = [''time'', ''lat'', ''lon''],
                     vdata = Floats (\<lambda>p. [[[Fin 10, Fin 20], [Fin 40, Fin 30]],
                                            [[Fin 1, NaN], [Fin 4, Fin 3]]]
                                 ! p ''time'' ! p ''lat'' ! p ''lon'')\<rparr>"
    "dims ([example_grid] ! 0) ''time'' = Some 2"
    by (simp_all add: example_grid_def)
  let ?x = "\<lparr>vdims = [''time'', ''lat'', ''lon''],
                     vdata = Floats (\<lambda>p. [[[Fin 10, Fin 20], [Fin 40, Fin 30]],
                                            [[Fin 1, NaN], [Fin 4, Fin 3]]]
                                 ! p ''time'' ! p ''lat'' ! p ''lon'')\<rparr> :: string variable"
  have xs: "distinct (vdims ?x)" "''reshape_index'' \<notin> set (vdims ?x)" "spatial ''lon'' ''lat'' ?x"
    "filter extra_dim (vdims ?x) = [''time'']" "extra_dim ''time''"
    by (simp_all add: spatial_def extra_dim_def)
  have "\<exists>d' x'. reindex_spatial_data_to_regions True 0 example_weights [example_grid]
        = (Inr 1, [example_grid, d']) \<and>
      dims d' ''reshape_index'' = Some 3 \<and> dims d' ''lon'' = None \<and> dims d' ''time'' = Some 2 \<and>
      variables d' ''tas'' = Some x' \<and>
      filter extra_dim (vdims x') = [''time''] \<and>
      elem_cell (vdata x') ((\<lambda>d. 0)(''reshape_index'' := 2)) = Num (Fin 30)"
    using reindexer_one_entry_per_row[OF a g n c l s, of True]
  proof (elim exE conjE)
    fix r h' d'
    assume run: "reindex_spatial_data_to_regions True 0 example_weights [example_grid] = (Inr r, h')"
      and r: "r = length [example_grid]" and h': "h' = [example_grid] @ [d']"
      and dm: "dims d' ''reshape_index'' = Some (length (column_cells example_weights ''lon''))"
        "dims d' ''lon'' = None"
        "\<forall>d. extra_dim d \<longrightarrow> dims d' d = dims ([example_grid] ! 0) d"
      and v: "\<forall>name x. variables ([example_grid] ! 0) name = Some x \<and> distinct (vdims x) \<and>
          ''reshape_index'' \<notin> set (vdims x) \<longrightarrow>
        (\<exists>x'. variables d' name = Some x' \<and>
           ''lon'' \<notin> set (vdims x') \<and> ''lat'' \<notin> set (vdims x') \<and>
           filter extra_dim (vdims x') = filter extra_dim (vdims x) \<and>
           length (filter (\<lambda>d. d = ''reshape_index'') (vdims x')) = (if spatial ''lon'' ''lat'' x then 1 else 0) \<and>
           (\<forall>i < length (column_cells example_weights ''lon'').
              \<exists>a b. a < length (index_cells ([example_grid] ! 0) ''lon'') \<and>
                    index_cells ([example_grid] ! 0) ''lon'' ! a = column_cells example_weights ''lon'' ! i \<and>
                    b < length (index_cells ([example_grid] ! 0) ''lat'') \<and>
                    index_cells ([example_grid] ! 0) ''lat'' ! b = column_cells example_weights ''lat'' ! i \<and>
                    (\<forall>p. p ''reshape_index'' = i \<longrightarrow>
                       elem_cell (vdata x') p =
                         (if spatial ''lon'' ''lat'' x
                          then elem_cell (vdata x) (p(''lon'' := a, ''lat'' := b))
                          else elem_cell (vdata x) p))))"
    from v t(1) xs(1,2) obtain x' where
      x': "variables d' ''tas'' = Some x'" "filter extra_dim (vdims x') = filter extra_dim (vdims ?x)"
      and rows: "\<forall>i < length (column_cells example_weights ''lon'').
              \<exists>a b. a < length (index_cells ([example_grid] ! 0) ''lon'') \<and>
                    index_cells ([example_grid] ! 0) ''lon'' ! a = column_cells example_weights ''lon'' ! i \<and>
                    b < length (index_cells ([example_grid] ! 0) ''lat'') \<and>
                    index_cells ([example_grid] ! 0) ''lat'' ! b = column_cells example_weights ''lat'' ! i \<and>
                    (\<forall>p. p ''reshape_index'' = i \<longrightarrow>
                       elem_cell (vdata x') p =
                         (if spatial ''lon'' ''lat'' ?x
                          then elem_cell (vdata ?x) (p(''lon'' := a, ''lat'' := b))
                          else elem_cell (vdata ?x) p))"
      by blast
    have "(2::nat) < length (column_cells example_weights ''lon'')" unfolding ax(5) by simp
    with rows obtain a b where
      ab: "a < length (index_cells ([example_grid] ! 0) ''lon'')"
        "index_cells ([example_grid] ! 0) ''lon'' ! a = column_cells example_weights ''lon'' ! 2"
        "b < length (index_cells ([example_grid] ! 0) ''lat'')"
        "index_cells ([example_grid] ! 0) ''lat'' ! b = column_cells example_weights ''lat'' ! 2"
      and e: "\<forall>p. p ''reshape_index'' = 2 \<longrightarrow>
                       elem_cell (vdata x') p =
                         (if spatial ''lon'' ''lat'' ?x
                          then elem_cell (vdata ?x) (p(''lon'' := a, ''lat'' := b))
                          else elem_cell (vdata ?x) p)"
      by blast
    from ab(1,2) have a1: "a = 1" unfolding ax by (cases a) auto
    from ab(3,4) have b1: "b = 1" unfolding ax by (cases b) auto
    have "elem_cell (vdata x') ((\<lambda>d. 0)(''reshape_index'' := 2)) =
        elem_cell (vdata ?x) (((\<lambda>d. 0)(''reshape_index'' := 2))(''lon'' := a, ''lat'' := b))"
      using spec[OF e, of "(\<lambda>d. 0)(''reshape_index'' := 2)"] xs(3) by simp
    then have val: "elem_cell (vdata x') ((\<lambda>d. 0)(''reshape_index'' := 2)) = Num (Fin 30)"
      by (simp add: a1 b1)
    have tm: "dims d' ''time'' = Some 2" using dm(3) xs(5) t(2) by simp
    show ?thesis
      using run r h' dm(1,2) tm x' val unfolding ax(5) xs(4) by auto
  qed
  with g s show ?thesis by blast
qed

section \<open>Which objects change\<close>










section \<open>The tabular reducer: how a run goes\<close>

lemma concat_select:
  assumes "distinct es" "e0 \<in> set es"
  shows "concat (map (\<lambda>e. if e = e0 then ys else []) es) = ys"
  using assms by (induction es) (auto simp: concat_eq_Nil_conv)

lemma nth_upt_filter_cong:
  assumes "\<And>i. i < n \<Longrightarrow> P i = Q i"
  shows "filter P [0..<n] = filter Q [0..<n]"
  using assms by (intro filter_cong) auto

lemma filter_product_rows:
  assumes "distinct es" "e0 \<in> set es"
    and "\<And>e i. e \<in> set es \<Longrightarrow> i < n \<Longrightarrow> P (e, i) = (e = e0 \<and> Q i)"
  shows "filter P (List.product es [0..<n]) = map (Pair e0) (filter Q [0..<n])"
proof -
  have "filter P (List.product es [0..<n]) =
      concat (map (\<lambda>e. map (Pair e) (filter (\<lambda>i. P (e, i)) [0..<n])) es)"
    by (induction es) (simp_all add: filter_map comp_def)
  also have "\<dots> = concat (map (\<lambda>e. if e = e0 then map (Pair e0) (filter Q [0..<n]) else []) es)"
  proof (rule arg_cong[where f = concat], rule map_cong[OF refl])
    fix e assume e: "e \<in> set es"
    show "map (Pair e) (filter (\<lambda>i. P (e, i)) [0..<n]) =
        (if e = e0 then map (Pair e0) (filter Q [0..<n]) else [])"
    proof (cases "e = e0")
      case True
      have "filter (\<lambda>i. P (e, i)) [0..<n] = filter Q [0..<n]"
        using assms(3)[OF e] True by (intro nth_upt_filter_cong) simp
      with True show ?thesis by simp
    next
      case False
      have "filter (\<lambda>i. P (e, i)) [0..<n] = filter (\<lambda>i. False) [0..<n]"
        using assms(3)[OF e] False by (intro nth_upt_filter_cong) simp
      with False show ?thesis by simp
    qed
  qed
  also have "\<dots> = map (Pair e0) (filter Q [0..<n])"
    using assms(1,2) by (rule concat_select)
  finally show ?thesis .
qed


lemma sel_vectorized_found:
  assumes "has_unique_index ds lo" "has_unique_index ds la"
    "set lons \<subseteq> set (index_cells ds lo)" "set lats \<subseteq> set (index_cells ds la)"
    "length lons = length lats" "dims ds pd = None"
  shows "sel_vectorized lo la pd ds lons lats = Inr (pointwise True lo la pd ds
            (map (\<lambda>l. position l (index_cells ds lo)) lons)
            (map (\<lambda>l. position l (index_cells ds la)) lats))"
  using assms(5,6) index_positions_found[OF assms(1,3)] index_positions_found[OF assms(2,4)]
  by (simp add: sel_vectorized_def)

lemma aggregate_array_run:
  fixes arr :: "'l data_array"
  assumes "array_ok arr lo la" "table_fits arr df wc rc lo la"
    and lev: "map_of (columns df) rc = Some lev"
    and ws: "map_of (columns df) wc = Some (FloatCol ws)"
  defines "g \<equiv> to_dataset arr ''__temp_weighting_output_variable__''"
  defines "lp \<equiv> map (\<lambda>l. position l (index_cells g lo)) (column_cells df lo)"
  defines "bp \<equiv> map (\<lambda>l. position l (index_cells g la)) (column_cells df la)"
  defines "R \<equiv> sampled_table arr lo la lp bp rc lev wc ws"
  defines "extra \<equiv> filter (\<lambda>d. d \<noteq> lo \<and> d \<noteq> la) (vdims (array arr))"
  shows "\<exists>fx. vdata (array arr) = Floats fx \<and>
     aggregate_array arr df wc [rc] lo la = Inr (\<lambda>key.
            if Num NaN \<in> set key then None
            else (case filter (\<lambda>row. row_key R [rc] extra row = key) (table_rows R extra) of
                    [] \<Rightarrow> None
                  | rows \<Rightarrow> Some (group_ratio
                      (map (\<lambda>row. (fx (at_points lo la ''SEGMENT_INDEX'' lp bp (row_pos extra row)),
                                     ws ! row_pos extra row ''SEGMENT_INDEX'')) rows))))"
proof -
  from assms(1) obtain fx where fx: "vdata (array arr) = Floats fx"
    by (auto simp: array_ok_def split: elems.splits)
  from assms(2) obtain lons lats where
    c: "map_of (columns df) lo = Some lons" "map_of (columns df) la = Some lats"
    by (auto simp: table_fits_def)
  note cc = column_cells_col_cells[OF c(1)] column_cells_col_cells[OF c(2)]
  have u: "has_unique_index g lo" "has_unique_index g la" "dims g ''SEGMENT_INDEX'' = None"
    using assms(1) by (simp_all add: array_ok_def g_def to_dataset_def)
  have sub: "set (col_cells lons) \<subseteq> set (index_cells g lo)"
    "set (col_cells lats) \<subseteq> set (index_cells g la)"
    "length (col_cells lons) = length (col_cells lats)"
    using assms(2) cc by (simp_all add: table_fits_def g_def)
  have sel: "sel_vectorized lo la ''SEGMENT_INDEX'' g (col_cells lons) (col_cells lats) =
      Inr (pointwise True lo la ''SEGMENT_INDEX'' g lp bp)"
    using sel_vectorized_found[OF u(1,2) sub u(3)] by (simp add: lp_def bp_def cc)
  have n: "col_length lev = length lp" "length ws = length lp"
    using assms(2) lev ws
    by (simp_all add: table_fits_def lp_def column_cells_def float_column_def)
  have names: "rc \<noteq> wc" "rc \<noteq> ''__temp_weighting_output_variable__''"
    "wc \<noteq> ''__temp_weighting_output_variable__''" "rc \<noteq> ''SEGMENT_INDEX''" "wc \<noteq> ''SEGMENT_INDEX''"
    "lo \<noteq> ''__temp_weighting_output_variable__''" "la \<noteq> ''__temp_weighting_output_variable__''"
    using assms(1,2) by (simp_all add: table_fits_def array_ok_def)
  have att: "attach_columns df ([rc] @ [wc])
       (with_row_index ''SEGMENT_INDEX'' (pointwise True lo la ''SEGMENT_INDEX'' g lp bp)) = Inr R"
    using lev ws n names
    by (simp add: df_getitem_def coords_setitem_def with_row_index_def pointwise_def
        R_def sampled_table_def g_def Let_def fun_upd_twist insert_commute)
  have sp: "spatial lo la (array arr)"
    using assms(1) by (simp add: array_ok_def spatial_def)
  have tmp: "variables R ''__temp_weighting_output_variable__'' =
       Some (pointwise_variable True lo la ''SEGMENT_INDEX'' lp bp (array arr))"
    using names
    by (simp add: R_def sampled_table_def pointwise_def g_def to_dataset_def Let_def)
  have fl: "vdata (pointwise_variable True lo la ''SEGMENT_INDEX'' lp bp (array arr)) =
      Floats (\<lambda>p. fx (at_points lo la ''SEGMENT_INDEX'' lp bp p))"
    using fx sp by (simp add: pointwise_variable_def)
  have wv: "variables R wc = Some \<lparr>vdims = [''SEGMENT_INDEX''],
      vdata = Floats (\<lambda>p. ws ! p ''SEGMENT_INDEX'')\<rparr>"
    by (simp add: R_def sampled_table_def Let_def)
  have rp: "row_pos ex row ''SEGMENT_INDEX'' = snd row" for row and ex :: "string list"
    by (simp add: row_pos_def)
  have "aggregate_array arr df wc [rc] lo la = Inr (\<lambda>key.
            if Num NaN \<in> set key then None
            else (case filter (\<lambda>row. row_key R [rc] extra row = key) (table_rows R extra) of
                    [] \<Rightarrow> None
                  | rows \<Rightarrow> Some (group_ratio
                      (map (\<lambda>row. (fx (at_points lo la ''SEGMENT_INDEX'' lp bp (row_pos extra row)),
                                     ws ! row_pos extra row ''SEGMENT_INDEX'')) rows))))"
    unfolding aggregate_array_def Let_def extra_def
    using c sel[unfolded g_def] att[unfolded g_def] tmp wv fl
    by (simp add: df_getitem_def dataset_getitem_def)
  with fx show ?thesis by blast
qed


lemma elem_cell_data_array [simp]:
  "elem_cell (vdata (data_array_1d d c)) p = col_cell c (p d)"
  by (cases c) simp_all

lemma col_cells_nth: "i < col_length c \<Longrightarrow> col_cells c ! i = col_cell c i"
  by (simp add: col_cells_def)

lemma length_col_cells [simp]: "length (col_cells c) = col_length c"
  by (simp add: col_cells_def)

lemma in_product_space:
  "e \<in> set (product_lists (map (\<lambda>d. [0..<sz d]) ds)) \<longleftrightarrow>
     length e = length ds \<and> (\<forall>j < length ds. e ! j < sz (ds ! j))"
  by (auto simp: product_lists_set list_all2_conv_all_nth)

lemma distinct_product_space: "distinct (product_lists (map (\<lambda>d. [0..<sz d]) ds))"
  by (rule distinct_product_lists) auto

lemma labels_injective:
  assumes "length e = length ds" "length e' = length ds"
    and "\<forall>j < length ds. e ! j < sz (ds ! j) \<and> e' ! j < sz (ds ! j)"
    and "\<And>d i j. d \<in> set ds \<Longrightarrow> i < sz d \<Longrightarrow> j < sz d \<Longrightarrow> lab d i = lab d j \<Longrightarrow> i = j"
    and "map2 lab ds e = map2 lab ds e'"
  shows "e = e'"
proof (rule nth_equalityI)
  show "length e = length e'" using assms(1,2) by simp
next
  fix j assume "j < length e"
  then have j: "j < length ds" using assms(1) by simp
  have "map2 lab ds e ! j = map2 lab ds e' ! j" using assms(5) by simp
  then have "lab (ds ! j) (e ! j) = lab (ds ! j) (e' ! j)"
    using j assms(1,2) by simp
  then show "e ! j = e' ! j"
    using assms(3,4) j by (meson nth_mem)
qed

lemma dim_label_injective:
  assumes "labelled_dim arr d" "sizes arr d = Some n" "i < n" "j < n"
    and "dim_label (to_dataset arr ''__temp_weighting_output_variable__'') d i =
         dim_label (to_dataset arr ''__temp_weighting_output_variable__'') d j"
  shows "i = j"
proof (cases "map_of (coords arr) d")
  case None
  then show ?thesis
    using assms by (simp add: dim_label_def to_dataset_def labelled_dim_def)
next
  case (Some ix)
  then have d: "distinct (cells_along ix d n)"
    using assms(1,2) by (simp add: labelled_dim_def)
  have "cells_along ix d n ! i = cells_along ix d n ! j"
    using assms Some by (simp add: dim_label_def to_dataset_def labelled_dim_def cells_along_def)
  moreover have "i < length (cells_along ix d n)" "j < length (cells_along ix d n)"
    using assms(3,4) by (simp_all add: cells_along_def)
  ultimately show ?thesis
    using d nth_eq_iff_index_eq by blast
qed

lemma dim_label_defined:
  assumes "labelled_dim arr d" "sizes arr d = Some n" "i < n"
  shows "dim_label (to_dataset arr ''__temp_weighting_output_variable__'') d i \<noteq> Num NaN"
proof (cases "map_of (coords arr) d")
  case None
  then show ?thesis
    using assms by (simp add: dim_label_def to_dataset_def labelled_dim_def)
next
  case (Some ix)
  then have "Num NaN \<notin> set (cells_along ix d n)"
    using assms(1,2) by (simp add: labelled_dim_def)
  moreover have "cells_along ix d n ! i \<in> set (cells_along ix d n)"
    using assms(3) by (simp add: cells_along_def)
  moreover have "cells_along ix d n ! i =
      dim_label (to_dataset arr ''__temp_weighting_output_variable__'') d i"
    using assms Some by (simp add: dim_label_def to_dataset_def labelled_dim_def cells_along_def)
  ultimately show ?thesis by metis
qed


lemma sampled_table_facts:
  fixes arr :: "'l data_array" and lp bp :: "nat list" and lev :: "'l column" and ws :: "f64 list"
  assumes "array_ok arr lo la" "table_fits arr df wc rc lo la"
  defines "g \<equiv> to_dataset arr ''__temp_weighting_output_variable__''"
  defines "R \<equiv> sampled_table arr lo la lp bp rc lev wc ws"
  defines "extra \<equiv> filter (\<lambda>d. d \<noteq> lo \<and> d \<noteq> la) (vdims (array arr))"
  shows "variables R rc = Some (data_array_1d ''SEGMENT_INDEX'' lev)"
    and "dim_size R ''SEGMENT_INDEX'' = length lp"
    and "\<And>d. d \<in> set extra \<Longrightarrow> dim_label R d = dim_label g d"
    and "\<And>d. d \<in> set extra \<Longrightarrow> dim_size R d = dim_size g d"
    and "\<And>d. d \<in> set extra \<Longrightarrow> labelled_dim arr d"
proof -
  have names: "rc \<noteq> wc" "rc \<notin> set (vdims (array arr))" "wc \<notin> set (vdims (array arr))"
    using assms(2) by (simp_all add: table_fits_def)
  show "variables R rc = Some (data_array_1d ''SEGMENT_INDEX'' lev)"
    using names(1) by (simp add: R_def sampled_table_def Let_def)
  show "dim_size R ''SEGMENT_INDEX'' = length lp"
    by (simp add: R_def sampled_table_def Let_def dim_size_def)
  fix d assume d: "d \<in> set extra"
  then have dd: "d \<noteq> lo" "d \<noteq> la" "d \<in> set (vdims (array arr))"
    by (simp_all add: extra_def)
  from assms(1) d show l: "labelled_dim arr d"
    by (simp add: array_ok_def extra_def list_all_iff)
  then have dn: "d \<noteq> ''SEGMENT_INDEX''" "d \<noteq> ''__temp_weighting_output_variable__''"
    by (simp_all add: labelled_dim_def)
  have drc: "d \<noteq> rc" "d \<noteq> wc" using names dd(3) by auto
  show "dim_size R d = dim_size g d"
    using dd dn by (simp add: R_def sampled_table_def Let_def dim_size_def pointwise_def g_def)
  have "variables R d = variables g d"
  proof (cases "map_of (coords arr) d")
    case None
    then show ?thesis
      using dn drc by (simp add: R_def sampled_table_def Let_def pointwise_def g_def to_dataset_def)
  next
    case (Some ix)
    then have "vdims ix = [d]" using l by (auto simp: labelled_dim_def split: option.splits)
    then have "\<not> spatial lo la ix" using dd by (simp add: spatial_def)
    then show ?thesis
      using dn drc Some
      by (simp add: R_def sampled_table_def Let_def pointwise_def g_def to_dataset_def
          pointwise_variable_def)
  qed
  then show "dim_label R d = dim_label g d"
    by (simp add: dim_label_def fun_eq_iff)
qed


lemma map2_cong_left:
  assumes "\<And>d. d \<in> set ds \<Longrightarrow> f d = g d"
  shows "map2 f ds e = map2 g ds e"
  using assms by (auto dest: set_zip_leftD)

lemma case_nonempty: "xs \<noteq> [] \<Longrightarrow> (case xs of [] \<Rightarrow> a | y # ys \<Rightarrow> f (y # ys)) = f xs"
  by (cases xs) simp_all

lemma aggregate_array_value:
  fixes arr :: "'l data_array"
  assumes ok: "array_ok arr lo la" and fits: "table_fits arr df wc rc lo la"
    and lev: "map_of (columns df) rc = Some lev"
    and ws: "map_of (columns df) wc = Some (FloatCol ws)"
    and r: "r \<in> set (col_cells lev)" "r \<noteq> Num NaN"
  defines "g \<equiv> to_dataset arr ''__temp_weighting_output_variable__''"
  defines "lp \<equiv> map (\<lambda>l. position l (index_cells g lo)) (column_cells df lo)"
  defines "bp \<equiv> map (\<lambda>l. position l (index_cells g la)) (column_cells df la)"
  defines "extra \<equiv> filter (\<lambda>d. d \<noteq> lo \<and> d \<noteq> la) (vdims (array arr))"
  assumes e0: "length e0 = length extra" "\<forall>j < length extra. e0 ! j < dim_size g (extra ! j)"
  shows "\<exists>fx s. vdata (array arr) = Floats fx \<and>
     aggregate_array arr df wc [rc] lo la = Inr s \<and>
     s (r # map2 (dim_label g) extra e0) = Some (group_ratio
        (map (\<lambda>i. (fx (at_points lo la ''SEGMENT_INDEX'' lp bp (row_pos extra (e0, i))), ws ! i))
           (members (col_cells lev) r)))"
proof -
  define R where "R = sampled_table arr lo la lp bp rc lev wc ws"
  define key where "key = r # map2 (dim_label g) extra e0"
  define ms where "ms = filter (\<lambda>i. col_cell lev i = r) [0..<length lp]"
  have "\<exists>fx. vdata (array arr) = Floats fx \<and>
     aggregate_array arr df wc [rc] lo la = Inr (\<lambda>key.
            if Num NaN \<in> set key then None
            else (case filter (\<lambda>row. row_key R [rc] extra row = key) (table_rows R extra) of
                    [] \<Rightarrow> None
                  | rows \<Rightarrow> Some (group_ratio
                      (map (\<lambda>row. (fx (at_points lo la ''SEGMENT_INDEX'' lp bp (row_pos extra row)),
                                     ws ! row_pos extra row ''SEGMENT_INDEX'')) rows))))"
    unfolding R_def lp_def bp_def g_def extra_def
    by (rule aggregate_array_run[OF ok fits lev ws])
  then obtain fx where fx: "vdata (array arr) = Floats fx"
    and run: "aggregate_array arr df wc [rc] lo la = Inr (\<lambda>key.
            if Num NaN \<in> set key then None
            else (case filter (\<lambda>row. row_key R [rc] extra row = key) (table_rows R extra) of
                    [] \<Rightarrow> None
                  | rows \<Rightarrow> Some (group_ratio
                      (map (\<lambda>row. (fx (at_points lo la ''SEGMENT_INDEX'' lp bp (row_pos extra row)),
                                     ws ! row_pos extra row ''SEGMENT_INDEX'')) rows))))"
    by blast
  have f1: "variables R rc = Some (data_array_1d ''SEGMENT_INDEX'' lev)"
    unfolding R_def by (rule sampled_table_facts(1)[OF ok fits])
  have f2: "dim_size R ''SEGMENT_INDEX'' = length lp"
    unfolding R_def by (rule sampled_table_facts(2)[OF ok fits])
  have f3: "dim_label R d = dim_label g d" if "d \<in> set extra" for d
    using that unfolding R_def g_def extra_def by (rule sampled_table_facts(3)[OF ok fits])
  have f4: "dim_size R d = dim_size g d" if "d \<in> set extra" for d
    using that unfolding R_def g_def extra_def by (rule sampled_table_facts(4)[OF ok fits])
  have f5: "labelled_dim arr d" if "d \<in> set extra" for d
    using that unfolding extra_def by (rule sampled_table_facts(5)[OF ok fits])
  have n: "length lp = col_length lev"
    using fits lev by (simp add: table_fits_def lp_def column_cells_def)
  have sz: "sizes arr d = Some (dim_size g d)" if "d \<in> set extra" for d
    using f5[OF that] by (auto simp: labelled_dim_def dim_size_def g_def to_dataset_def
        split: option.splits)
  have inj: "i = j" if "d \<in> set extra" "i < dim_size g d" "j < dim_size g d"
    "dim_label g d i = dim_label g d j" for d i j
    using dim_label_injective[OF f5[OF that(1)] sz[OF that(1)] that(2,3)] that(4)
    by (simp add: g_def)
  have defd: "dim_label g d i \<noteq> Num NaN" if "d \<in> set extra" "i < dim_size g d" for d i
    using dim_label_defined[OF f5[OF that(1)] sz[OF that(1)] that(2)] by (simp add: g_def)
  have nonan: "Num NaN \<notin> set key"
  proof
    assume "Num NaN \<in> set key"
    then have "Num NaN \<in> set (map2 (dim_label g) extra e0)"
      using r(2) by (simp add: key_def)
    then obtain j where j: "j < length extra" "dim_label g (extra ! j) (e0 ! j) = Num NaN"
      using e0(1) by (auto simp: in_set_conv_nth)
    then show False using defd[of "extra ! j" "e0 ! j"] e0(2) by simp
  qed
  have es: "map (\<lambda>d. [0..<dim_size R d]) extra = map (\<lambda>d. [0..<dim_size g d]) extra"
    using f4 by simp
  have rk: "row_key R [rc] extra (e, i) = col_cell lev i # map2 (dim_label g) extra e" for e i
    using map2_cong_left[of extra "dim_label R" "dim_label g" e, OF f3]
    by (simp add: row_key_def f1 row_pos_def)
  have filt: "filter (\<lambda>row. row_key R [rc] extra row = key) (table_rows R extra) =
      map (Pair e0) ms"
    unfolding table_rows_def f2 es ms_def
  proof (rule filter_product_rows)
    show "distinct (product_lists (map (\<lambda>d. [0..<dim_size g d]) extra))"
      by (rule distinct_product_space)
    show "e0 \<in> set (product_lists (map (\<lambda>d. [0..<dim_size g d]) extra))"
      using e0 by (simp add: in_product_space)
  next
    fix e i
    assume e: "e \<in> set (product_lists (map (\<lambda>d. [0..<dim_size g d]) extra))"
      and "i < length lp"
    then have le: "length e = length extra" "\<forall>j < length extra. e ! j < dim_size g (extra ! j)"
      by (simp_all add: in_product_space)
    have "e = e0" if "map2 (dim_label g) extra e = map2 (dim_label g) extra e0"
    proof (rule labels_injective[OF le(1) e0(1) _ _ that])
      show "\<forall>j<length extra. e ! j < dim_size g (extra ! j) \<and> e0 ! j < dim_size g (extra ! j)"
        using le(2) e0(2) by simp
      show "\<And>d i j. d \<in> set extra \<Longrightarrow> i < dim_size g d \<Longrightarrow> j < dim_size g d \<Longrightarrow>
          dim_label g d i = dim_label g d j \<Longrightarrow> i = j"
        by (rule inj)
    qed
    then show "(row_key R [rc] extra (e, i) = key) = (e = e0 \<and> col_cell lev i = r)"
      unfolding rk key_def by auto
  qed
  have mem: "members (col_cells lev) r = ms"
    unfolding members_def ms_def n length_col_cells
    by (rule nth_upt_filter_cong) (simp add: col_cells_nth)
  from r(1) obtain i where "i < col_length lev" "col_cells lev ! i = r"
    by (auto simp: in_set_conv_nth)
  then have "i \<in> set ms" by (simp add: ms_def n col_cells_nth)
  then have ne: "map (Pair e0) ms \<noteq> []" by auto
  have rp: "row_pos extra (e0, i) ''SEGMENT_INDEX'' = i" for i
    by (simp add: row_pos_def)
  define s where "s = (\<lambda>key.
            if Num NaN \<in> set key then None
            else (case filter (\<lambda>row. row_key R [rc] extra row = key) (table_rows R extra) of
                    [] \<Rightarrow> None
                  | rows \<Rightarrow> Some (group_ratio
                      (map (\<lambda>row. (fx (at_points lo la ''SEGMENT_INDEX'' lp bp (row_pos extra row)),
                                     ws ! row_pos extra row ''SEGMENT_INDEX'')) rows))))"
  have "s key = Some (group_ratio
        (map (\<lambda>i. (fx (at_points lo la ''SEGMENT_INDEX'' lp bp (row_pos extra (e0, i))), ws ! i))
           ms))"
    unfolding s_def using nonan ne
    by (simp add: filt case_nonempty[where f = "\<lambda>rows. Some (group_ratio (map _ rows))"]
        comp_def rp split: list.splits)
  then show ?thesis
    using fx run unfolding s_def[symmetric] key_def mem by blast
qed

section \<open>Regions without weight\<close>

lemma nansum_weight_ok:
  "\<forall>w\<in>set ws. weight_ok w \<Longrightarrow> weight_ok (nansum ws) \<and> nansum ws \<noteq> NaN"
proof (induction ws)
  case Nil
  then show ?case by simp
next
  case (Cons w ws)
  then have ih: "weight_ok (nansum ws)" "nansum ws \<noteq> NaN" and w: "weight_ok w" by simp_all
  show ?case
    using ih w by (cases w; cases "nansum ws") simp_all
qed

lemma nansum_zero_parts:
  "\<forall>w\<in>set ws. weight_ok w \<Longrightarrow> nansum ws = Fin 0 \<Longrightarrow> \<forall>w\<in>set ws. no_contribution w"
proof (induction ws)
  case Nil
  then show ?case by simp
next
  case (Cons w ws)
  then have w: "weight_ok w" and all: "\<forall>w\<in>set ws. weight_ok w" by simp_all
  from nansum_weight_ok[OF all] have s: "weight_ok (nansum ws)" "nansum ws \<noteq> NaN" by simp_all
  from Cons.prems(2) w s have "no_contribution w \<and> nansum ws = Fin 0"
    by (cases w; cases "nansum ws") (simp_all add: no_contribution_def split: if_splits)
  with Cons.IH[OF all] show ?case by simp
qed

lemma nansum_no_contribution: "\<forall>x\<in>set xs. no_contribution x \<Longrightarrow> nansum xs = Fin 0"
  by (induction xs) (auto simp: no_contribution_def)

lemma no_contribution_mul_left: "no_contribution e \<Longrightarrow> no_contribution (f64_mul e v)"
  by (cases v) (auto simp: no_contribution_def)

lemma no_contribution_where: "no_contribution e \<Longrightarrow> no_contribution (where_elem c e)"
  by (auto simp: no_contribution_def where_elem_def)

lemma group_ratio_zero:
  assumes "\<forall>x\<in>set vws. no_contribution (snd x)"
  shows "group_ratio vws = NaN"
proof -
  have "nansum (map (\<lambda>(v, w). f64_mul w v) vws) = Fin 0"
    using assms by (intro nansum_no_contribution) (auto simp: no_contribution_mul_left)
  moreover have "nansum (map (\<lambda>(v, w). where_elem (notnull v) w) vws) = Fin 0"
    using assms by (intro nansum_no_contribution) (auto simp: no_contribution_where)
  ultimately show ?thesis
    by (simp add: group_ratio_def fillna_def)
qed

lemma weighted_mean_zero:
  assumes "\<forall>i\<in>set ms. no_contribution (w i)"
  shows "f64_div (nansum (map (\<lambda>i. f64_mul (v i) (w i)) ms)) (nansum (map w ms)) = NaN"
proof -
  have "nansum (map (\<lambda>i. f64_mul (v i) (w i)) ms) = Fin 0"
    using assms by (intro nansum_no_contribution) (auto simp: no_contribution_mul)
  moreover have "nansum (map w ms) = Fin 0"
    using assms by (intro nansum_no_contribution) auto
  ultimately show ?thesis by simp
qed

lemma reducer_region_value:
  fixes weights :: "('l::linorder) dataframe"
  assumes "reducer_ok ds variable aggwt agglev weights backup_aggwt h"
    and "r \<in> set (column_cells weights agglev)" and "r \<noteq> Num NaN"
  obtains out h' k fx where
    "aggregate_reindexed_data_to_regions ds variable aggwt agglev weights backup_aggwt h
       = (Inr out, h')"
    "k < length (index_cells out agglev)" "index_cells out agglev ! k = r"
    "\<forall>q. float_at (h ! ds) variable q = Some (fx q)"
    "\<forall>p. p agglev = k \<longrightarrow> float_at out variable p = Some (f64_div
        (nansum (map (\<lambda>i. f64_mul (fx (p(''reshape_index'' := i)))
                        (effective_weights weights aggwt backup_aggwt ! i))
           (members (column_cells weights agglev) r)))
        (nansum (map (\<lambda>i. effective_weights weights aggwt backup_aggwt ! i)
           (members (column_cells weights agglev) r))))"
proof -
  from assms(1) obtain lev ws bs dx fx where c:
    "ds < length h" "variable \<noteq> aggwt" "variable \<noteq> agglev" "aggwt \<noteq> agglev"
    "map_of (columns weights) agglev = Some lev"
    "map_of (columns weights) aggwt = Some (FloatCol ws)"
    "map_of (columns weights) backup_aggwt = Some (FloatCol bs)"
    "variables (h ! ds) variable = Some \<lparr>vdims = dx, vdata = Floats fx\<rparr>"
    "length ws = col_length lev" "length bs = col_length lev"
    "dims (h ! ds) ''reshape_index'' = None \<or> dims (h ! ds) ''reshape_index'' = Some (col_length lev)"
    by (rule reducer_ok_cases)
  define cs where "cs = map (col_cell lev) [0..<col_length lev]"
  have cc: "column_cells weights agglev = cs"
    using c(5) by (simp add: column_cells_Some cs_def)
  have f: "float_column weights aggwt = ws" "float_column weights backup_aggwt = bs"
    using c(6,7) by (simp_all add: float_column_def)
  from weighted_mutated[OF c(2,3,4,8), of lev ws bs] obtain out where
    w: "weighted variable aggwt agglev (mutated (h ! ds) agglev aggwt lev ws bs) = Inr out"
    and ix: "index_cells out agglev = group_keys cs"
    and v: "\<And>p. float_at out variable p = Some (f64_div
        (nansum (map (\<lambda>i. f64_mul (fx (p(''reshape_index'' := i))) (fallback_weight (ws ! i) (bs ! i)))
           (members cs (group_keys cs ! p agglev))))
        (nansum (map (\<lambda>i. fallback_weight (ws ! i) (bs ! i))
           (members cs (group_keys cs ! p agglev)))))"
    unfolding cs_def by blast
  have run: "aggregate_reindexed_data_to_regions ds variable aggwt agglev weights backup_aggwt h =
       (Inr out, h[ds := mutated (h ! ds) agglev aggwt lev ws bs])"
    using reducer_run[OF c(1,4,5,6,7,9,10,11), of variable] w by simp
  from assms(2,3) cc obtain k where k: "k < length (group_keys cs)" "group_keys cs ! k = r"
    by (metis group_keys_position)
  have eff: "effective_weights weights aggwt backup_aggwt ! i = fallback_weight (ws ! i) (bs ! i)"
    if "i \<in> set (members cs r)" for i
  proof -
    from that have "i < length cs" by (simp add: members_def)
    then have "i < length ws" using c(9) by (simp add: cs_def)
    then show ?thesis using c(9,10) f by (simp add: effective_weights_def)
  qed
  have val: "float_at (h ! ds) variable q = Some (fx q)" for q
    using c(8) by (simp add: float_at_def)
  have res: "float_at out variable p = Some (f64_div
        (nansum (map (\<lambda>i. f64_mul (fx (p(''reshape_index'' := i)))
                        (effective_weights weights aggwt backup_aggwt ! i)) (members cs r)))
        (nansum (map (\<lambda>i. effective_weights weights aggwt backup_aggwt ! i) (members cs r))))"
    if "p agglev = k" for p
    using v[of p] that k(2) eff by (simp cong: map_cong)
  have val': "\<forall>q. float_at (h ! ds) variable q = Some (fx q)"
    using val by blast
  have res': "\<forall>p. p agglev = k \<longrightarrow> float_at out variable p = Some (f64_div
        (nansum (map (\<lambda>i. f64_mul (fx (p(''reshape_index'' := i)))
                        (effective_weights weights aggwt backup_aggwt ! i))
           (members (column_cells weights agglev) r)))
        (nansum (map (\<lambda>i. effective_weights weights aggwt backup_aggwt ! i)
           (members (column_cells weights agglev) r))))"
    using res unfolding cc by blast
  show thesis
    using that[OF run k(1)[folded ix] k(2)[folded ix] val' res'] .
qed

text \<open>
  C4. A region whose weights in force are non-negative or undefined and sum to zero has an
  entry in the result, and the entry is not-a-number at every position of the extra
  dimensions: the run raises nothing, and the entry is neither left out nor zero. This
  holds for the array-based reducer, with the weights after the fallback, and for
  \<^verbatim>\<open>aggregate_array\<close>, with the weights of its weight column.
\<close>

theorem zero_weight_sum_gives_not_a_number:
  fixes weights :: "('l::linorder) dataframe" and arr :: "'l data_array"
  shows "(reducer_ok ds variable aggwt agglev weights backup_aggwt h \<and>
          r \<in> set (column_cells weights agglev) \<and> r \<noteq> Num NaN \<and>
          list_all (\<lambda>i. weight_ok (effective_weights weights aggwt backup_aggwt ! i))
            (members (column_cells weights agglev) r) \<and>
          nansum (map (\<lambda>i. effective_weights weights aggwt backup_aggwt ! i)
            (members (column_cells weights agglev) r)) = Fin 0
          \<longrightarrow> (\<exists>out h' k.
                aggregate_reindexed_data_to_regions ds variable aggwt agglev weights
                  backup_aggwt h = (Inr out, h') \<and>
                k < length (index_cells out agglev) \<and> index_cells out agglev ! k = r \<and>
                (\<forall>p. p agglev = k \<longrightarrow> float_at out variable p = Some NaN))) \<and>
         (array_ok arr lon_name lat_name \<and> table_fits arr df weight_col rc lon_name lat_name \<and>
          r' \<in> set (column_cells df rc) \<and> r' \<noteq> Num NaN \<and>
          extra_positions arr lon_name lat_name e \<and>
          list_all (\<lambda>i. weight_ok (float_column df weight_col ! i))
            (members (column_cells df rc) r') \<and>
          nansum (map (\<lambda>i. float_column df weight_col ! i)
            (members (column_cells df rc) r')) = Fin 0
          \<longrightarrow> (\<exists>s. aggregate_array arr df weight_col [rc] lon_name lat_name = Inr s \<and>
                s (series_key arr lon_name lat_name r' e) = Some NaN))"
proof (intro conjI impI)
  assume a: "reducer_ok ds variable aggwt agglev weights backup_aggwt h \<and>
          r \<in> set (column_cells weights agglev) \<and> r \<noteq> Num NaN \<and>
          list_all (\<lambda>i. weight_ok (effective_weights weights aggwt backup_aggwt ! i))
            (members (column_cells weights agglev) r) \<and>
          nansum (map (\<lambda>i. effective_weights weights aggwt backup_aggwt ! i)
            (members (column_cells weights agglev) r)) = Fin 0"
  define ms where "ms = members (column_cells weights agglev) r"
  from a have ok: "reducer_ok ds variable aggwt agglev weights backup_aggwt h"
    and r: "r \<in> set (column_cells weights agglev)" "r \<noteq> Num NaN"
    and nn: "\<forall>w\<in>set (map (\<lambda>i. effective_weights weights aggwt backup_aggwt ! i) ms). weight_ok w"
    and z: "nansum (map (\<lambda>i. effective_weights weights aggwt backup_aggwt ! i) ms) = Fin 0"
    by (simp_all add: ms_def list_all_iff)
  from nansum_zero_parts[OF nn z]
  have nc: "\<forall>i\<in>set ms. no_contribution (effective_weights weights aggwt backup_aggwt ! i)"
    by simp
  from ok r obtain out h' k fx where
    run: "aggregate_reindexed_data_to_regions ds variable aggwt agglev weights backup_aggwt h
       = (Inr out, h')"
    and k: "k < length (index_cells out agglev)" "index_cells out agglev ! k = r"
    and "\<forall>q. float_at (h ! ds) variable q = Some (fx q)"
    and v: "\<forall>p. p agglev = k \<longrightarrow> float_at out variable p = Some (f64_div
        (nansum (map (\<lambda>i. f64_mul (fx (p(''reshape_index'' := i)))
                        (effective_weights weights aggwt backup_aggwt ! i))
           (members (column_cells weights agglev) r)))
        (nansum (map (\<lambda>i. effective_weights weights aggwt backup_aggwt ! i)
           (members (column_cells weights agglev) r))))"
    by (rule reducer_region_value)
  have "float_at out variable p = Some NaN" if "p agglev = k" for p
    unfolding v[rule_format, of p, OF that] ms_def[symmetric]
    using weighted_mean_zero[of ms "\<lambda>i. effective_weights weights aggwt backup_aggwt ! i", OF nc]
    by simp
  with run k show "\<exists>out h' k.
                aggregate_reindexed_data_to_regions ds variable aggwt agglev weights
                  backup_aggwt h = (Inr out, h') \<and>
                k < length (index_cells out agglev) \<and> index_cells out agglev ! k = r \<and>
                (\<forall>p. p agglev = k \<longrightarrow> float_at out variable p = Some NaN)"
    by blast
next
  assume a: "array_ok arr lon_name lat_name \<and> table_fits arr df weight_col rc lon_name lat_name \<and>
          r' \<in> set (column_cells df rc) \<and> r' \<noteq> Num NaN \<and>
          extra_positions arr lon_name lat_name e \<and>
          list_all (\<lambda>i. weight_ok (float_column df weight_col ! i))
            (members (column_cells df rc) r') \<and>
          nansum (map (\<lambda>i. float_column df weight_col ! i)
            (members (column_cells df rc) r')) = Fin 0"
  then have ok: "array_ok arr lon_name lat_name"
    and fits: "table_fits arr df weight_col rc lon_name lat_name" by simp_all
  from fits obtain lev where lev: "map_of (columns df) rc = Some lev"
    by (auto simp: table_fits_def)
  from fits obtain ws where ws: "map_of (columns df) weight_col = Some (FloatCol ws)"
    "float_column df weight_col = ws"
    by (auto simp: table_fits_def elim: is_float_columnE)
  note cc = column_cells_col_cells[OF lev]
  define ms where "ms = members (col_cells lev) r'"
  from a have r: "r' \<in> set (col_cells lev)" "r' \<noteq> Num NaN"
    and nn: "\<forall>w\<in>set (map (\<lambda>i. ws ! i) ms). weight_ok w"
    and z: "nansum (map (\<lambda>i. ws ! i) ms) = Fin 0"
    by (simp_all add: ms_def list_all_iff cc ws(2))
  from a have e: "length e = length (extra_dims_of arr lon_name lat_name)"
    "\<forall>j < length (extra_dims_of arr lon_name lat_name).
        e ! j < dim_size (to_dataset arr ''__temp_weighting_output_variable__'')
                  (extra_dims_of arr lon_name lat_name ! j)"
    by (simp_all add: extra_positions_def list_all2_conv_all_nth)
  from nansum_zero_parts[OF nn z] have nc: "\<forall>i\<in>set ms. no_contribution (ws ! i)" by simp
  from aggregate_array_value[OF ok fits lev ws(1) r e[unfolded extra_dims_of_def]]
  obtain fx s where
    run: "aggregate_array arr df weight_col [rc] lon_name lat_name = Inr s"
    and v: "s (series_key arr lon_name lat_name r' e) = Some (group_ratio
        (map (\<lambda>i. (fx (at_points lon_name lat_name ''SEGMENT_INDEX''
              (map (\<lambda>l. position l (index_cells
                  (to_dataset arr ''__temp_weighting_output_variable__'') lon_name))
                 (column_cells df lon_name))
              (map (\<lambda>l. position l (index_cells
                  (to_dataset arr ''__temp_weighting_output_variable__'') lat_name))
                 (column_cells df lat_name))
              (row_pos (extra_dims_of arr lon_name lat_name) (e, i))), ws ! i)) ms))"
    unfolding series_key_def extra_dims_of_def ms_def by blast
  have "s (series_key arr lon_name lat_name r' e) = Some NaN"
    unfolding v using nc by (subst group_ratio_zero) simp_all
  with run show "\<exists>s. aggregate_array arr df weight_col [rc] lon_name lat_name = Inr s \<and>
                s (series_key arr lon_name lat_name r' e) = Some NaN"
    by blast
qed


theorem zero_weight_sum_gives_not_a_number_witness:
  "reducer_ok 0 ''tas'' ''popwt'' ''ISO'' example_zero_weights ''areawt'' [example_points] \<and>
   nansum (map (\<lambda>i. effective_weights example_zero_weights ''popwt'' ''areawt'' ! i)
      (members (column_cells example_zero_weights ''ISO'') (Lab ''A''))) = Fin 0 \<and>
   (\<exists>out h' k. aggregate_reindexed_data_to_regions 0 ''tas'' ''popwt'' ''ISO''
        example_zero_weights ''areawt'' [example_points] = (Inr out, h') \<and>
      index_cells out ''ISO'' ! k = Lab ''A'' \<and>
      float_at out ''tas'' ((\<lambda>d. 0)(''ISO'' := k)) = Some NaN) \<and>
   array_ok example_array ''lon'' ''lat'' \<and>
   table_fits example_array example_zero_weights ''popwt'' ''ISO'' ''lon'' ''lat'' \<and>
   nansum (map (\<lambda>i. float_column example_zero_weights ''popwt'' ! i)
      (members (column_cells example_zero_weights ''ISO'') (Lab ''A''))) = Fin 0 \<and>
   (\<exists>s. aggregate_array example_array example_zero_weights ''popwt'' [''ISO''] ''lon'' ''lat''
        = Inr s \<and>
      s [Lab ''A'', Num (Fin 1)] = Some NaN)"
proof -
  have ok: "reducer_ok 0 ''tas'' ''popwt'' ''ISO'' example_zero_weights ''areawt'' [example_points]"
    by code_simp
  have r: "Lab ''A'' \<in> set (column_cells example_zero_weights ''ISO'')" by code_simp
  have n: "Lab ''A'' \<noteq> (Num NaN :: string cell)" by simp
  have w1: "list_all (\<lambda>i. weight_ok (effective_weights example_zero_weights ''popwt'' ''areawt'' ! i))
      (members (column_cells example_zero_weights ''ISO'') (Lab ''A''))" by code_simp
  have z1: "nansum (map (\<lambda>i. effective_weights example_zero_weights ''popwt'' ''areawt'' ! i)
      (members (column_cells example_zero_weights ''ISO'') (Lab ''A''))) = Fin 0" by code_simp
  have a: "array_ok example_array ''lon'' ''lat''" by code_simp
  have f: "table_fits example_array example_zero_weights ''popwt'' ''ISO'' ''lon'' ''lat''"
    by code_simp
  have e: "extra_positions example_array ''lon'' ''lat'' [1]" by code_simp
  have w2: "list_all (\<lambda>i. weight_ok (float_column example_zero_weights ''popwt'' ! i))
      (members (column_cells example_zero_weights ''ISO'') (Lab ''A''))" by code_simp
  have z2: "nansum (map (\<lambda>i. float_column example_zero_weights ''popwt'' ! i)
      (members (column_cells example_zero_weights ''ISO'') (Lab ''A''))) = Fin 0" by code_simp
  have key: "series_key example_array ''lon'' ''lat'' (Lab ''A'') [1] = [Lab ''A'', Num (Fin 1)]"
    by code_simp
  note t = zero_weight_sum_gives_not_a_number[where ds = 0 and variable = "''tas''"
      and aggwt = "''popwt''" and agglev = "''ISO''" and weights = example_zero_weights
      and backup_aggwt = "''areawt''" and h = "[example_points]" and r = "Lab ''A''"
      and arr = example_array and lon_name = "''lon''" and lat_name = "''lat''"
      and df = example_zero_weights and weight_col = "''popwt''" and rc = "''ISO''"
      and r' = "Lab ''A''" and e = "[1]"]
  from ok r n w1 z1 have h1: "reducer_ok 0 ''tas'' ''popwt'' ''ISO'' example_zero_weights ''areawt'' [example_points] \<and>
          Lab ''A'' \<in> set (column_cells example_zero_weights ''ISO'') \<and> Lab ''A'' \<noteq> (Num NaN :: string cell) \<and>
          list_all (\<lambda>i. weight_ok (effective_weights example_zero_weights ''popwt'' ''areawt'' ! i))
            (members (column_cells example_zero_weights ''ISO'') (Lab ''A'')) \<and>
          nansum (map (\<lambda>i. effective_weights example_zero_weights ''popwt'' ''areawt'' ! i)
            (members (column_cells example_zero_weights ''ISO'') (Lab ''A''))) = Fin 0"
    by (intro conjI)
  from a f r n e w2 z2 have h2: "array_ok example_array ''lon'' ''lat'' \<and>
          table_fits example_array example_zero_weights ''popwt'' ''ISO'' ''lon'' ''lat'' \<and>
          Lab ''A'' \<in> set (column_cells example_zero_weights ''ISO'') \<and> Lab ''A'' \<noteq> (Num NaN :: string cell) \<and>
          extra_positions example_array ''lon'' ''lat'' [1] \<and>
          list_all (\<lambda>i. weight_ok (float_column example_zero_weights ''popwt'' ! i))
            (members (column_cells example_zero_weights ''ISO'') (Lab ''A'')) \<and>
          nansum (map (\<lambda>i. float_column example_zero_weights ''popwt'' ! i)
            (members (column_cells example_zero_weights ''ISO'') (Lab ''A''))) = Fin 0"
    by (intro conjI)
  from t[THEN conjunct1, THEN mp, OF h1] obtain out h' k where
    run: "aggregate_reindexed_data_to_regions 0 ''tas'' ''popwt'' ''ISO''
        example_zero_weights ''areawt'' [example_points] = (Inr out, h')"
    and k: "index_cells out ''ISO'' ! k = Lab ''A''"
    and v: "\<forall>p. p ''ISO'' = k \<longrightarrow> float_at out ''tas'' p = Some NaN"
    by blast
  have v': "float_at out ''tas'' ((\<lambda>d. 0)(''ISO'' := k)) = Some NaN"
    using v[rule_format, of "(\<lambda>d. 0)(''ISO'' := k)"] by simp
  from t[THEN conjunct2, THEN mp, OF h2] obtain s where
    s: "aggregate_array example_array example_zero_weights ''popwt'' [''ISO''] ''lon'' ''lat''
        = Inr s" "s [Lab ''A'', Num (Fin 1)] = Some NaN"
    unfolding key by blast
  have c1: "\<exists>out h' k. aggregate_reindexed_data_to_regions 0 ''tas'' ''popwt'' ''ISO''
        example_zero_weights ''areawt'' [example_points] = (Inr out, h') \<and>
      index_cells out ''ISO'' ! k = Lab ''A'' \<and>
      float_at out ''tas'' ((\<lambda>d. 0)(''ISO'' := k)) = Some NaN"
    using run k v' by blast
  have c2: "\<exists>s. aggregate_array example_array example_zero_weights ''popwt'' [''ISO''] ''lon'' ''lat''
        = Inr s \<and> s [Lab ''A'', Num (Fin 1)] = Some NaN"
    using s by blast
  from ok z1 c1 a f z2 c2 show ?thesis by (intro conjI)
qed

section \<open>The tabular reducer against the array-based path\<close>

















end
